theory Spec2Isabelle
  imports Main "HOL-Library.AList"
begin

section \<open>Event records (lib/index.ts, lines 19-76)\<close>

text \<open>The enum \<^verbatim>\<open>EventType\<close>, in the order of the source.\<close>

datatype EventType =
    INITIAL_HEARTBEAT
  | HEARTBEAT
  | BROADCAST
  | SOCKETS_JOIN
  | SOCKETS_LEAVE
  | DISCONNECT_SOCKETS
  | FETCH_SOCKETS
  | FETCH_SOCKETS_RESPONSE
  | SERVER_SIDE_EMIT
  | SERVER_SIDE_EMIT_RESPONSE
  | BROADCAST_CLIENT_COUNT
  | BROADCAST_ACK
  | SESSION

type_synonym Room = string

text \<open>A MongoDB \<^verbatim>\<open>ObjectId\<close>, read as the number its twelve bytes spell; \<^verbatim>\<open>$gt\<close>
  compares these numbers.\<close>

type_synonym ObjectId = nat

text \<open>Values of type \<^verbatim>\<open>any\<close> that the adapter only carries around: event arguments,
  socket descriptions, acknowledgement values.\<close>

datatype Value = Str string | Num int | Oid ObjectId

text \<open>A Socket.IO packet: \<^verbatim>\<open>packet.type\<close>, \<^verbatim>\<open>packet.id\<close> (\<open>None\<close> is
  \<^verbatim>\<open>undefined\<close>) and \<^verbatim>\<open>packet.data\<close> (an array, or \<open>None\<close> when absent).\<close>

record Packet =
  packet_type :: nat
  packet_id :: "nat option"
  packet_data :: "Value list option"

record Flags =
  flag_local :: bool
  flag_volatile :: "bool option"
  flag_timeout :: "int option"

text \<open>\<^verbatim>\<open>BroadcastOptions\<close>: the two sets are lists without duplicates, in insertion order.\<close>

record BroadcastOptions =
  opt_rooms :: "Room list"
  opt_except :: "Room list option"
  opt_flags :: "Flags option"

text \<open>What \<^verbatim>\<open>serializeOptions\<close> writes into a document.\<close>

record SerializedOptions =
  ser_rooms :: "Room list"
  ser_except :: "Room list"
  ser_flags :: "Flags option"

record Session =
  session_sid :: string
  session_pid :: string
  session_rooms :: "Room list"
  session_data :: Value

record RestoredSession = Session +
  missedPackets :: "Value list list"

text \<open>The field \<^verbatim>\<open>data\<close> of a document, one constructor for each shape the adapter writes.\<close>

datatype EventData =
    NoData
  | BroadcastData Packet SerializedOptions "string option"
  | ClientCountData string nat
  | AckData string Value
  | RoomsData SerializedOptions "Room list"
  | DisconnectData SerializedOptions bool
  | FetchSocketsData SerializedOptions string
  | FetchSocketsResponseData string "Value list"
  | ServerSideEmitData "string option" "Value list"
  | ServerSideEmitResponseData string Value
  | SessionData Session

text \<open>\<^verbatim>\<open>AdapterEvent\<close>, with the \<^verbatim>\<open>_id\<close> that \<^verbatim>\<open>insertOne\<close> assigns.\<close>

record AdapterEvent =
  event_id :: ObjectId
  event_type :: EventType
  event_uid :: "string option"
  event_nsp :: "string option"
  createdAt :: "int option"
  event_data :: EventData

text \<open>The collection in natural (insertion) order.\<close>

type_synonym Collection = "AdapterEvent list"

text \<open>\<^verbatim>\<open>Request.resolve\<close> is either the \<^verbatim>\<open>resolve\<close> of the promise of
  \<^verbatim>\<open>fetchSockets\<close> or the acknowledgement function of \<^verbatim>\<open>serverSideEmit\<close>.\<close>

datatype Resolver = PromiseResolve | AckFunction

record Request =
  request_type :: EventType
  resolve :: Resolver
  timeout :: int
  expected :: nat
  current :: nat
  responses :: "Value list"

record AckRequest =
  ack_type :: EventType

text \<open>Arguments handed to a resolver, and the calls the adapter makes to its base class,
  to the namespace and to its callers' callbacks, recorded in the order they are made.\<close>

datatype Arg = Null | Responses "Value list" | Error string

datatype Effect =
    SuperBroadcast Packet BroadcastOptions
  | SuperBroadcastWithAck Packet BroadcastOptions "string option"
  | SuperAddSockets BroadcastOptions "Room list"
  | SuperDelSockets BroadcastOptions "Room list"
  | SuperDisconnectSockets BroadcastOptions bool
  | ClientCountCallback string nat
  | AckCallback string Value
  | OnServerSideEmit "Value list" "string option"
  | Call Resolver "Arg list"
  | Reject Arg

section \<open>The adapter (lib/index.ts, lines 238-285)\<close>

text \<open>The three maps are association lists in insertion order, with one entry for each key;
  \<open>heartbeatTimer\<close> is the time at which the pending timer fires; \<open>effects\<close> records the
  calls the adapter has made, the oldest first.\<close>

record MongoAdapter =
  uid :: string
  nsp_name :: string
  connectionStateRecovery :: bool
  requestsTimeout :: int
  heartbeatInterval :: int
  heartbeatTimeout :: int
  addCreatedAtField :: bool
  nodesMap :: "(string \<times> int) list"
  heartbeatTimer :: "int option"
  requests :: "(string \<times> Request) list"
  ackRequests :: "(string \<times> AckRequest) list"
  isClosed :: bool
  effects :: "Effect list"

text \<open>What one call reads from outside the adapter: \<^verbatim>\<open>Date.now()\<close>, the outcome of
  \<^verbatim>\<open>insertOne\<close> (\<open>None\<close> when it rejects), \<^verbatim>\<open>randomId()\<close> and the result of
  \<^verbatim>\<open>super.fetchSockets\<close>.\<close>

record Env =
  now :: int
  insertedId :: "ObjectId option"
  randomId :: string
  localSockets :: "Value list"

text \<open>A rejection is the string the adapter rejects with, or the error of the driver.\<close>

datatype Reason = Message string | MongoError | TypeError

definition EMITTER_UID :: string where
  "EMITTER_UID = ''emitter''"

definition emit :: "Effect \<Rightarrow> MongoAdapter \<Rightarrow> MongoAdapter" where
  "emit e a = a\<lparr>effects := effects a @ [e]\<rparr>"

text \<open>\<^verbatim>\<open>ObjectId.toString("hex")\<close>: 24 lower-case hexadecimal digits.\<close>

fun hexDigits :: "nat \<Rightarrow> nat \<Rightarrow> string" where
  "hexDigits 0 n = []"
| "hexDigits (Suc k) n = hexDigits k (n div 16) @ [''0123456789abcdef'' ! (n mod 16)]"

definition toHexString :: "ObjectId \<Rightarrow> string" where
  "toHexString oid = hexDigits 24 oid"

definition close :: "MongoAdapter \<Rightarrow> MongoAdapter" where
  "close a = a\<lparr>isClosed := True, heartbeatTimer := None\<rparr>"

text \<open>\<^verbatim>\<open>scheduleHeartbeat\<close> replaces the pending timer by one that fires
  \<^verbatim>\<open>heartbeatInterval\<close> ms from now.\<close>

definition scheduleHeartbeat :: "Env \<Rightarrow> MongoAdapter \<Rightarrow> MongoAdapter" where
  "scheduleHeartbeat env a = a\<lparr>heartbeatTimer := Some (now env + heartbeatInterval a)\<rparr>"

definition publish ::
  "Env \<Rightarrow> EventType \<Rightarrow> EventData \<Rightarrow> Collection \<times> MongoAdapter
    \<Rightarrow> (Reason + string) \<times> Collection \<times> MongoAdapter" where
  "publish env t d s =
     (case s of (coll, a) \<Rightarrow>
        if isClosed a then (Inl (Message ''adapter is closed''), coll, a)
        else
          let a' = scheduleHeartbeat env a in
          (case insertedId env of
             None \<Rightarrow> (Inl MongoError, coll, a')
           | Some oid \<Rightarrow>
               (Inr (toHexString oid),
                coll @ [\<lparr>event_id = oid, event_type = t, event_uid = Some (uid a),
                          event_nsp = Some (nsp_name a),
                          createdAt = (if addCreatedAtField a then Some (now env) else None),
                          event_data = d\<rparr>],
                a')))"

text \<open>The callback of the heartbeat timer.\<close>

definition heartbeatTick :: "Env \<Rightarrow> Collection \<times> MongoAdapter \<Rightarrow> Collection \<times> MongoAdapter" where
  "heartbeatTick env s =
     (case publish env HEARTBEAT NoData s of
        (r, coll, a) \<Rightarrow> (coll, scheduleHeartbeat env a))"

section \<open>Peer liveness (lib/index.ts, lines 615-617 and 670-679)\<close>

definition serverCount :: "MongoAdapter \<Rightarrow> nat \<times> MongoAdapter" where
  "serverCount a = (1 + length (nodesMap a), a)"

definition nodeSeemsDown :: "Env \<Rightarrow> MongoAdapter \<Rightarrow> int \<Rightarrow> bool" where
  "nodeSeemsDown env a lastSeen = (now env - lastSeen > heartbeatTimeout a)"

definition getExpectedResponseCount :: "Env \<Rightarrow> MongoAdapter \<Rightarrow> nat \<times> MongoAdapter" where
  "getExpectedResponseCount env a =
     (let m = filter (\<lambda>(u, lastSeen). \<not> nodeSeemsDown env a lastSeen) (nodesMap a)
      in (length m, a\<lparr>nodesMap := m\<rparr>))"

section \<open>Options (lib/index.ts, lines 504-521)\<close>

definition serializeOptions :: "BroadcastOptions \<Rightarrow> SerializedOptions" where
  "serializeOptions opts =
     \<lparr>ser_rooms = opt_rooms opts,
      ser_except = (case opt_except opts of Some e \<Rightarrow> e | None \<Rightarrow> []),
      ser_flags = opt_flags opts\<rparr>"

text \<open>\<^verbatim>\<open>new Set(xs)\<close> keeps the first occurrence of each element.\<close>

definition newSet :: "'a list \<Rightarrow> 'a list" where
  "newSet xs = rev (remdups (rev xs))"

definition deserializeOptions :: "SerializedOptions \<Rightarrow> BroadcastOptions" where
  "deserializeOptions opts =
     \<lparr>opt_rooms = newSet (ser_rooms opts),
      opt_except = Some (newSet (ser_except opts)),
      opt_flags = ser_flags opts\<rparr>"

text \<open>\<^verbatim>\<open>opts?.flags?.local\<close>\<close>

definition onlyLocal :: "BroadcastOptions \<Rightarrow> bool" where
  "onlyLocal opts = (case opt_flags opts of None \<Rightarrow> False | Some f \<Rightarrow> flag_local f)"

section \<open>Broadcast and socket management (lib/index.ts, lines 523-668)\<close>

text \<open>\<open>None\<close> is the \<^verbatim>\<open>TypeError\<close> of \<^verbatim>\<open>packet.data.push\<close> on a packet without data.\<close>

definition addOffsetIfNecessary ::
  "MongoAdapter \<Rightarrow> Packet \<Rightarrow> BroadcastOptions \<Rightarrow> Value \<Rightarrow> Packet option" where
  "addOffsetIfNecessary a packet opts offset =
     (if \<not> connectionStateRecovery a then Some packet
      else
        let isEventPacket = (packet_type packet = 2);
            withoutAcknowledgement = (packet_id packet = None);
            notVolatile = (case opt_flags opts of None \<Rightarrow> True | Some f \<Rightarrow> flag_volatile f = None)
        in if isEventPacket \<and> withoutAcknowledgement \<and> notVolatile
           then (case packet_data packet of
                   None \<Rightarrow> None
                 | Some ds \<Rightarrow> Some (packet\<lparr>packet_data := Some (ds @ [offset])\<rparr>))
           else Some packet)"

text \<open>\<^verbatim>\<open>broadcast\<close> catches whatever its \<^verbatim>\<open>try\<close> block throws and returns; the first
  component is the outcome of the promise it returns.\<close>

definition broadcast ::
  "Env \<Rightarrow> Packet \<Rightarrow> BroadcastOptions \<Rightarrow> Collection \<times> MongoAdapter
    \<Rightarrow> (Reason + unit) \<times> Collection \<times> MongoAdapter" where
  "broadcast env packet opts s =
     (case s of (coll, a) \<Rightarrow>
        if \<not> onlyLocal opts then
          (case publish env BROADCAST (BroadcastData packet (serializeOptions opts) None) (coll, a) of
             (Inl err, coll', a') \<Rightarrow> (Inr (), coll', a')
           | (Inr offset, coll', a') \<Rightarrow>
               (case addOffsetIfNecessary a' packet opts (Str offset) of
                  None \<Rightarrow> (Inr (), coll', a')
                | Some packet' \<Rightarrow> (Inr (), coll', emit (SuperBroadcast packet' opts) a')))
        else (Inr (), coll, emit (SuperBroadcast packet opts) a))"

text \<open>Without the local flag, \<^verbatim>\<open>opts.flags!.timeout\<close> throws when there are no flags,
  after the publish and before the local call is scheduled.\<close>

definition broadcastWithAck ::
  "Env \<Rightarrow> Packet \<Rightarrow> BroadcastOptions \<Rightarrow> Collection \<times> MongoAdapter
    \<Rightarrow> (Reason + unit) \<times> Collection \<times> MongoAdapter" where
  "broadcastWithAck env packet opts s =
     (case s of (coll, a) \<Rightarrow>
        if \<not> onlyLocal opts then
          (let requestId = randomId env in
           case publish env BROADCAST
                  (BroadcastData packet (serializeOptions opts) (Some requestId)) (coll, a) of
             (r, coll', a') \<Rightarrow>
               (let a'' = a'\<lparr>ackRequests :=
                              AList.update requestId \<lparr>ack_type = BROADCAST\<rparr> (ackRequests a')\<rparr>
                in case opt_flags opts of
                     None \<Rightarrow> (Inl TypeError, coll', a'')
                   | Some f \<Rightarrow> (Inr (), coll', emit (SuperBroadcastWithAck packet opts None) a'')))
        else (Inr (), coll, emit (SuperBroadcastWithAck packet opts None) a))"

text \<open>The timer that \<^verbatim>\<open>broadcastWithAck\<close> sets with the caller's timeout.\<close>

definition ackRequestTimeout :: "string \<Rightarrow> MongoAdapter \<Rightarrow> MongoAdapter" where
  "ackRequestTimeout requestId a = a\<lparr>ackRequests := AList.delete requestId (ackRequests a)\<rparr>"

definition addSockets ::
  "Env \<Rightarrow> BroadcastOptions \<Rightarrow> Room list \<Rightarrow> Collection \<times> MongoAdapter
    \<Rightarrow> Collection \<times> MongoAdapter" where
  "addSockets env opts rooms s =
     (case s of (coll, a) \<Rightarrow>
        let a1 = emit (SuperAddSockets opts rooms) a in
        if onlyLocal opts then (coll, a1)
        else snd (publish env SOCKETS_JOIN (RoomsData (serializeOptions opts) rooms) (coll, a1)))"

definition delSockets ::
  "Env \<Rightarrow> BroadcastOptions \<Rightarrow> Room list \<Rightarrow> Collection \<times> MongoAdapter
    \<Rightarrow> Collection \<times> MongoAdapter" where
  "delSockets env opts rooms s =
     (case s of (coll, a) \<Rightarrow>
        let a1 = emit (SuperDelSockets opts rooms) a in
        if onlyLocal opts then (coll, a1)
        else snd (publish env SOCKETS_LEAVE (RoomsData (serializeOptions opts) rooms) (coll, a1)))"

definition disconnectSockets ::
  "Env \<Rightarrow> BroadcastOptions \<Rightarrow> bool \<Rightarrow> Collection \<times> MongoAdapter
    \<Rightarrow> Collection \<times> MongoAdapter" where
  "disconnectSockets env opts cl s =
     (case s of (coll, a) \<Rightarrow>
        let a1 = emit (SuperDisconnectSockets opts cl) a in
        if onlyLocal opts then (coll, a1)
        else snd (publish env DISCONNECT_SOCKETS (DisconnectData (serializeOptions opts) cl) (coll, a1)))"

section \<open>Requests (lib/index.ts, lines 681-787)\<close>

text \<open>A number inside a template literal: its decimal digits.\<close>

fun showNat :: "nat \<Rightarrow> string" where
  "showNat n =
     (if n < 10 then [''0123456789'' ! n]
      else showNat (n div 10) @ [''0123456789'' ! (n mod 10)])"

declare showNat.simps [simp del]

definition timeoutMessage :: "Request \<Rightarrow> string" where
  "timeoutMessage storedRequest =
     ''timeout reached: only '' @ showNat (current storedRequest)
       @ '' responses received out of '' @ showNat (expected storedRequest)"

text \<open>\<^verbatim>\<open>fetchSockets\<close> returns the local sockets at once (\<open>Some\<close>), or a promise that is
  settled later (\<open>None\<close>) by a response or by the timer.\<close>

definition fetchSockets ::
  "Env \<Rightarrow> BroadcastOptions \<Rightarrow> Collection \<times> MongoAdapter
    \<Rightarrow> Value list option \<times> Collection \<times> MongoAdapter" where
  "fetchSockets env opts s =
     (case s of (coll, a) \<Rightarrow>
        case getExpectedResponseCount env a of
          (expectedResponseCount, a1) \<Rightarrow>
            if onlyLocal opts \<or> expectedResponseCount = 0 then (Some (localSockets env), coll, a1)
            else
              let requestId = randomId env;
                  storedRequest =
                    \<lparr>request_type = FETCH_SOCKETS, resolve = PromiseResolve,
                     timeout = now env + requestsTimeout a1, expected = expectedResponseCount,
                     current = 0, responses = localSockets env\<rparr>;
                  a2 = a1\<lparr>requests := AList.update requestId storedRequest (requests a1)\<rparr>
              in (case publish env FETCH_SOCKETS
                         (FetchSocketsData (serializeOptions opts) requestId) (coll, a2) of
                    (r, coll', a3) \<Rightarrow> (None, coll', a3)))"

text \<open>The callback of the timer that \<^verbatim>\<open>fetchSockets\<close> sets.\<close>

definition fetchSocketsTimeout :: "string \<Rightarrow> MongoAdapter \<Rightarrow> MongoAdapter" where
  "fetchSocketsTimeout requestId a =
     (case map_of (requests a) requestId of
        None \<Rightarrow> a
      | Some storedRequest \<Rightarrow>
          (emit (Reject (Error (timeoutMessage storedRequest))) a)
            \<lparr>requests := AList.delete requestId (requests a)\<rparr>)"

definition serverSideEmitWithAck ::
  "Env \<Rightarrow> Value list \<Rightarrow> Collection \<times> MongoAdapter \<Rightarrow> Collection \<times> MongoAdapter" where
  "serverSideEmitWithAck env packet s =
     (case s of (coll, a) \<Rightarrow>
        case getExpectedResponseCount env a of
          (expectedResponseCount, a1) \<Rightarrow>
            if expectedResponseCount \<le> 0 then (coll, emit (Call AckFunction [Null, Responses []]) a1)
            else
              let requestId = randomId env;
                  storedRequest =
                    \<lparr>request_type = FETCH_SOCKETS, resolve = AckFunction,
                     timeout = now env + requestsTimeout a1, expected = expectedResponseCount,
                     current = 0, responses = []\<rparr>;
                  a2 = a1\<lparr>requests := AList.update requestId storedRequest (requests a1)\<rparr>
              in snd (publish env SERVER_SIDE_EMIT (ServerSideEmitData (Some requestId) packet)
                        (coll, a2)))"

text \<open>The callback of the timer that \<^verbatim>\<open>serverSideEmitWithAck\<close> sets.\<close>

definition serverSideEmitTimeout :: "string \<Rightarrow> MongoAdapter \<Rightarrow> MongoAdapter" where
  "serverSideEmitTimeout requestId a =
     (case map_of (requests a) requestId of
        None \<Rightarrow> a
      | Some storedRequest \<Rightarrow>
          (emit (Call AckFunction
                   [Error (timeoutMessage storedRequest), Responses (responses storedRequest)]) a)
            \<lparr>requests := AList.delete requestId (requests a)\<rparr>)"

text \<open>\<open>withAck\<close> says whether the last element of the packet was a function; \<open>packet\<close> is
  the packet without it.\<close>

definition serverSideEmit ::
  "Env \<Rightarrow> Value list \<Rightarrow> bool \<Rightarrow> Collection \<times> MongoAdapter \<Rightarrow> Collection \<times> MongoAdapter" where
  "serverSideEmit env packet withAck s =
     (if withAck then serverSideEmitWithAck env packet s
      else snd (publish env SERVER_SIDE_EMIT (ServerSideEmitData None packet) s))"

section \<open>Session recovery (lib/index.ts, lines 789-889)\<close>

definition persistSession ::
  "Env \<Rightarrow> Session \<Rightarrow> Collection \<times> MongoAdapter \<Rightarrow> Collection \<times> MongoAdapter" where
  "persistSession env session s = snd (publish env SESSION (SessionData session) s)"

text \<open>The paths that the queries of \<^verbatim>\<open>restoreSession\<close> read in a document; \<open>None\<close> when
  the document has no such field.\<close>

fun data_pid :: "EventData \<Rightarrow> string option" where
  "data_pid (SessionData session) = Some (session_pid session)"
| "data_pid _ = None"

fun data_opts :: "EventData \<Rightarrow> SerializedOptions option" where
  "data_opts (BroadcastData packet opts requestId) = Some opts"
| "data_opts (RoomsData opts rooms) = Some opts"
| "data_opts (DisconnectData opts cl) = Some opts"
| "data_opts (FetchSocketsData opts requestId) = Some opts"
| "data_opts _ = None"

fun data_packet_data :: "EventData \<Rightarrow> Value list option" where
  "data_packet_data (BroadcastData packet opts requestId) = packet_data packet"
| "data_packet_data _ = None"

text \<open>The query operators of MongoDB on a field that holds an array of strings:
  \<^verbatim>\<open>{$size: 0}\<close>, \<^verbatim>\<open>{$in: xs}\<close> (some element of the array is in \<open>xs\<close>) and
  \<^verbatim>\<open>{$nin: xs}\<close> (its negation, which a missing field satisfies).\<close>

definition size0 :: "string list option \<Rightarrow> bool" where
  "size0 field = (case field of None \<Rightarrow> False | Some ys \<Rightarrow> length ys = 0)"

definition op_in :: "string list option \<Rightarrow> string list \<Rightarrow> bool" where
  "op_in field xs = (case field of None \<Rightarrow> False | Some ys \<Rightarrow> list_ex (\<lambda>y. y \<in> set xs) ys)"

definition op_nin :: "string list option \<Rightarrow> string list \<Rightarrow> bool" where
  "op_nin field xs = (\<not> op_in field xs)"

text \<open>\<^verbatim>\<open>findOneAndDelete(query)\<close> takes the first matching document out of the collection.\<close>

definition findOneAndDelete ::
  "(AdapterEvent \<Rightarrow> bool) \<Rightarrow> Collection \<Rightarrow> AdapterEvent option \<times> Collection" where
  "findOneAndDelete query coll =
     (case List.find query coll of
        None \<Rightarrow> (None, coll)
      | Some d \<Rightarrow> (Some d, remove1 d coll))"

definition sessionQuery :: "string \<Rightarrow> AdapterEvent \<Rightarrow> bool" where
  "sessionQuery pid d = (event_type d = SESSION \<and> data_pid (event_data d) = Some pid)"

definition offsetQuery :: "ObjectId \<Rightarrow> AdapterEvent \<Rightarrow> bool" where
  "offsetQuery eventOffset d = (event_type d = BROADCAST \<and> event_id d = eventOffset)"

definition missedQuery :: "MongoAdapter \<Rightarrow> ObjectId \<Rightarrow> Session \<Rightarrow> AdapterEvent \<Rightarrow> bool" where
  "missedQuery a eventOffset session d =
     (event_type d = BROADCAST
      \<and> event_id d > eventOffset
      \<and> event_nsp d = Some (nsp_name a)
      \<and> (size0 (map_option ser_rooms (data_opts (event_data d)))
           \<or> op_in (map_option ser_rooms (data_opts (event_data d))) (session_rooms session))
      \<and> (size0 (map_option ser_except (data_opts (event_data d)))
           \<or> op_nin (map_option ser_except (data_opts (event_data d))) (session_rooms session)))"

text \<open>Which of the three accesses to the store fail with an I/O error in this call.\<close>

record StoreFailures =
  findOneAndDeleteFails :: bool
  findOneFails :: bool
  cursorFails :: bool

text \<open>\<open>objectId\<close> stands for the \<^verbatim>\<open>ObjectId\<close> class of the driver: \<open>None\<close> where
  \<^verbatim>\<open>ObjectId.isValid(offset)\<close> is false, and \<^verbatim>\<open>new ObjectId(offset)\<close> otherwise.
  The result is the string the promise rejects with, or the session.\<close>

definition collectMissedPackets :: "AdapterEvent list \<Rightarrow> Value list list" where
  "collectMissedPackets cursor =
     List.map_filter (\<lambda>document. data_packet_data (event_data document)) cursor"

definition scanMissedPackets ::
  "StoreFailures \<Rightarrow> MongoAdapter \<Rightarrow> ObjectId \<Rightarrow> Session \<Rightarrow> Collection
    \<Rightarrow> string + RestoredSession" where
  "scanMissedPackets io a eventOffset session coll =
     (let cursor = filter (missedQuery a eventOffset session) coll in
      if cursorFails io then Inl ''error while fetching missed packets''
      else Inr (Session.extend session (RestoredSession.fields (collectMissedPackets cursor))))"

definition restoreSession ::
  "(string \<Rightarrow> ObjectId option) \<Rightarrow> StoreFailures \<Rightarrow> string \<Rightarrow> string
    \<Rightarrow> Collection \<times> MongoAdapter \<Rightarrow> (string + RestoredSession) \<times> Collection" where
  "restoreSession objectId io pid offset s =
     (case objectId offset of
        None \<Rightarrow> (Inl ''invalid offset'', fst s)
      | Some eventOffset \<Rightarrow>
          (let results0 = (if findOneAndDeleteFails io then (None, fst s)
                           else findOneAndDelete (sessionQuery pid) (fst s));
               results1 = List.find (offsetQuery eventOffset) (fst s)
           in if findOneAndDeleteFails io \<or> findOneFails io
              then (Inl ''error while fetching session'', snd results0)
              else if fst results0 = None \<or> results1 = None
              then (Inl ''session or offset not found'', snd results0)
              else (case event_data (the (fst results0)) of
                      SessionData session \<Rightarrow>
                        (scanMissedPackets io (snd s) eventOffset session (snd results0),
                         snd results0)
                    | other \<Rightarrow> (Inl ''session or offset not found'', snd results0))))"

section \<open>Incoming events (lib/index.ts, lines 287-470)\<close>

definition settle :: "string \<Rightarrow> Request \<Rightarrow> Arg list \<Rightarrow> MongoAdapter \<Rightarrow> MongoAdapter" where
  "settle requestId request args a =
     (if current request = expected request
      then (emit (Call (resolve request) (args @ [Responses (responses request)])) a)
             \<lparr>requests := AList.delete requestId (requests a)\<rparr>
      else a\<lparr>requests := AList.update requestId request (requests a)\<rparr>)"

text \<open>The \<^verbatim>\<open>switch\<close> of \<^verbatim>\<open>onEvent\<close>. A type without a case, and a document whose data
  does not have the fields its type is read with, fall to the last equation.\<close>

definition handle ::
  "Env \<Rightarrow> ObjectId \<Rightarrow> EventType \<Rightarrow> EventData \<Rightarrow> Collection \<times> MongoAdapter
    \<Rightarrow> Collection \<times> MongoAdapter" where
  "handle env oid t d s =
     (case (t, d) of
        (INITIAL_HEARTBEAT, d') \<Rightarrow> snd (publish env HEARTBEAT NoData s)
      | (BROADCAST, BroadcastData packet opts (Some requestId)) \<Rightarrow>
          (fst s,
           emit (SuperBroadcastWithAck packet (deserializeOptions opts) (Some requestId)) (snd s))
      | (BROADCAST, BroadcastData packet opts None) \<Rightarrow>
          (case addOffsetIfNecessary (snd s) packet (deserializeOptions opts) (Oid oid) of
             None \<Rightarrow> s
           | Some packet' \<Rightarrow>
               (fst s, emit (SuperBroadcast packet' (deserializeOptions opts)) (snd s)))
      | (BROADCAST_CLIENT_COUNT, ClientCountData requestId clientCount) \<Rightarrow>
          (case map_of (ackRequests (snd s)) requestId of
             None \<Rightarrow> s
           | Some request \<Rightarrow> (fst s, emit (ClientCountCallback requestId clientCount) (snd s)))
      | (BROADCAST_ACK, AckData requestId clientResponse) \<Rightarrow>
          (case map_of (ackRequests (snd s)) requestId of
             None \<Rightarrow> s
           | Some request \<Rightarrow> (fst s, emit (AckCallback requestId clientResponse) (snd s)))
      | (SOCKETS_JOIN, RoomsData opts rooms) \<Rightarrow>
          (fst s, emit (SuperAddSockets (deserializeOptions opts) rooms) (snd s))
      | (SOCKETS_LEAVE, RoomsData opts rooms) \<Rightarrow>
          (fst s, emit (SuperDelSockets (deserializeOptions opts) rooms) (snd s))
      | (DISCONNECT_SOCKETS, DisconnectData opts cl) \<Rightarrow>
          (fst s, emit (SuperDisconnectSockets (deserializeOptions opts) cl) (snd s))
      | (FETCH_SOCKETS, FetchSocketsData opts requestId) \<Rightarrow>
          snd (publish env FETCH_SOCKETS_RESPONSE
                 (FetchSocketsResponseData requestId (localSockets env)) s)
      | (FETCH_SOCKETS_RESPONSE, FetchSocketsResponseData requestId sockets) \<Rightarrow>
          (case map_of (requests (snd s)) requestId of
             None \<Rightarrow> s
           | Some request \<Rightarrow>
               (fst s,
                settle requestId
                  (request\<lparr>current := current request + 1,
                           responses := responses request @ sockets\<rparr>)
                  [] (snd s)))
      | (SERVER_SIDE_EMIT, ServerSideEmitData requestId packet) \<Rightarrow>
          (fst s, emit (OnServerSideEmit packet requestId) (snd s))
      | (SERVER_SIDE_EMIT_RESPONSE, ServerSideEmitResponseData requestId packet) \<Rightarrow>
          (case map_of (requests (snd s)) requestId of
             None \<Rightarrow> s
           | Some request \<Rightarrow>
               (fst s,
                settle requestId
                  (request\<lparr>current := current request + 1,
                           responses := responses request @ [packet]\<rparr>)
                  [Null] (snd s)))
      | other \<Rightarrow> s)"

definition onEvent ::
  "Env \<Rightarrow> AdapterEvent \<Rightarrow> Collection \<times> MongoAdapter \<Rightarrow> Collection \<times> MongoAdapter" where
  "onEvent env document s =
     (case s of (coll, a) \<Rightarrow>
        let a1 = (case event_uid document of
                    None \<Rightarrow> a
                  | Some u \<Rightarrow>
                      if u \<noteq> [] \<and> u \<noteq> EMITTER_UID
                      then a\<lparr>nodesMap := AList.update u (now env) (nodesMap a)\<rparr>
                      else a)
        in handle env (event_id document) (event_type document) (event_data document) (coll, a1))"

text \<open>The callbacks that \<^verbatim>\<open>onEvent\<close> hands to \<^verbatim>\<open>super.broadcastWithAck\<close> and to
  \<^verbatim>\<open>_onServerSideEmit\<close>; \<open>called\<close> is the flag of the latter's closure.\<close>

definition remoteClientCount ::
  "Env \<Rightarrow> string \<Rightarrow> nat \<Rightarrow> Collection \<times> MongoAdapter \<Rightarrow> Collection \<times> MongoAdapter" where
  "remoteClientCount env requestId clientCount s =
     snd (publish env BROADCAST_CLIENT_COUNT (ClientCountData requestId clientCount) s)"

definition remoteAck ::
  "Env \<Rightarrow> string \<Rightarrow> Value \<Rightarrow> Collection \<times> MongoAdapter \<Rightarrow> Collection \<times> MongoAdapter" where
  "remoteAck env requestId arg s = snd (publish env BROADCAST_ACK (AckData requestId arg) s)"

definition serverSideEmitCallback ::
  "Env \<Rightarrow> string \<Rightarrow> bool \<Rightarrow> Value \<Rightarrow> Collection \<times> MongoAdapter \<Rightarrow> Collection \<times> MongoAdapter" where
  "serverSideEmitCallback env requestId called arg s =
     (if called then s
      else snd (publish env SERVER_SIDE_EMIT_RESPONSE (ServerSideEmitResponseData requestId arg) s))"

section \<open>The shared change stream (lib/index.ts, lines 151-236)\<close>

text \<open>The options after \<^verbatim>\<open>opts.uid = opts.uid || randomId()\<close>; the others may be missing.\<close>

record MongoAdapterOptions =
  opts_uid :: string
  opts_requestsTimeout :: "int option"
  opts_heartbeatInterval :: "int option"
  opts_heartbeatTimeout :: "int option"
  opts_addCreatedAtField :: "bool option"

text \<open>A change stream remembers the uid its \<^verbatim>\<open>$match\<close> stage excludes and the token it
  resumes after.\<close>

record ChangeStream =
  match_ne_uid :: string
  resumeAfter :: "ObjectId option"
  stream_closed :: bool

record ChangeEvent =
  operationType :: string
  fullDocument :: "AdapterEvent option"
  eventToken :: ObjectId

text \<open>The variables that the closure of \<^verbatim>\<open>createAdapter\<close> holds.\<close>

record Process =
  process_opts :: MongoAdapterOptions
  closed :: bool
  adapters :: "(string \<times> MongoAdapter) list"
  changeStream :: "ChangeStream option"
  resumeToken :: "ObjectId option"

text \<open>\<^verbatim>\<open>x || d\<close> on an optional number.\<close>

definition orDefault :: "int option \<Rightarrow> int \<Rightarrow> int" where
  "orDefault x d = (case x of None \<Rightarrow> d | Some v \<Rightarrow> if v = 0 then d else v)"

definition createAdapter ::
  "Env \<Rightarrow> string option \<Rightarrow> int option \<Rightarrow> int option \<Rightarrow> int option \<Rightarrow> bool option \<Rightarrow> Process" where
  "createAdapter env u rt hi ht ca =
     \<lparr>process_opts = \<lparr>opts_uid = (case u of None \<Rightarrow> randomId env
                           | Some v \<Rightarrow> if v = [] then randomId env else v),
              opts_requestsTimeout = rt, opts_heartbeatInterval = hi,
              opts_heartbeatTimeout = ht, opts_addCreatedAtField = ca\<rparr>,
      closed = False, adapters = [], changeStream = None, resumeToken = None\<rparr>"

definition initChangeStream :: "Process \<Rightarrow> Process" where
  "initChangeStream p =
     (if closed p \<or> (case changeStream p of None \<Rightarrow> False | Some cs \<Rightarrow> \<not> stream_closed cs)
      then p
      else p\<lparr>changeStream :=
               Some \<lparr>match_ne_uid = opts_uid (process_opts p), resumeAfter = resumeToken p,
                     stream_closed = False\<rparr>\<rparr>)"

text \<open>The constructor of \<^verbatim>\<open>MongoAdapter\<close>; \<open>csr\<close> is
  \<^verbatim>\<open>nsp.server.opts.connectionStateRecovery\<close>.\<close>

definition newMongoAdapter ::
  "Env \<Rightarrow> string \<Rightarrow> bool \<Rightarrow> MongoAdapterOptions \<Rightarrow> Collection \<Rightarrow> Collection \<times> MongoAdapter" where
  "newMongoAdapter env name csr os coll =
     snd (publish env INITIAL_HEARTBEAT NoData
            (coll,
             \<lparr>uid = opts_uid os, nsp_name = name, connectionStateRecovery = csr,
              requestsTimeout = orDefault (opts_requestsTimeout os) 5000,
              heartbeatInterval = orDefault (opts_heartbeatInterval os) 5000,
              heartbeatTimeout = orDefault (opts_heartbeatTimeout os) 10000,
              addCreatedAtField = (opts_addCreatedAtField os = Some True),
              nodesMap = [], heartbeatTimer = None, requests = [], ackRequests = [],
              isClosed = False, effects = []\<rparr>))"

text \<open>The function that \<^verbatim>\<open>createAdapter\<close> returns, called once for each namespace.\<close>

definition attach ::
  "Env \<Rightarrow> string \<Rightarrow> bool \<Rightarrow> Collection \<times> Process \<Rightarrow> Collection \<times> Process" where
  "attach env name csr s =
     (let p1 = (if changeStream (snd s) = None
                then initChangeStream ((snd s)\<lparr>closed := False\<rparr>) else snd s);
          r = newMongoAdapter env name csr (process_opts p1) (fst s)
      in (fst r, p1\<lparr>adapters := AList.update name (snd r) (adapters p1)\<rparr>))"

text \<open>The \<^verbatim>\<open>close\<close> that replaces the adapter's own.\<close>

definition closeAdapter :: "string \<Rightarrow> MongoAdapter \<Rightarrow> Process \<Rightarrow> Process \<times> MongoAdapter" where
  "closeAdapter name adapter p =
     (let remaining = AList.delete name (adapters p);
          p1 = p\<lparr>adapters := remaining\<rparr>
      in (if length remaining = 0 then p1\<lparr>changeStream := None, closed := True\<rparr> else p1,
          close adapter))"

text \<open>The \<^verbatim>\<open>$match\<close> stage: \<^verbatim>\<open>$ne\<close> holds of a document without the field too.\<close>

definition pipelineMatches :: "ChangeStream \<Rightarrow> ChangeEvent \<Rightarrow> bool" where
  "pipelineMatches cs event =
     (case fullDocument event of
        None \<Rightarrow> True
      | Some document \<Rightarrow> event_uid document \<noteq> Some (match_ne_uid cs))"

text \<open>The listener of \<^verbatim>\<open>"change"\<close>.\<close>

definition onChange ::
  "Env \<Rightarrow> ChangeEvent \<Rightarrow> Collection \<times> Process \<Rightarrow> Collection \<times> Process" where
  "onChange env event s =
     (if operationType event = ''insert'' then
        (let p1 = (snd s)\<lparr>resumeToken := Some (eventToken event)\<rparr> in
         case fullDocument event of
           None \<Rightarrow> (fst s, p1)
         | Some document \<Rightarrow>
             (case event_nsp document of
                None \<Rightarrow> (fst s, p1)
              | Some name \<Rightarrow>
                  (case map_of (adapters p1) name of
                     None \<Rightarrow> (fst s, p1)
                   | Some adapter \<Rightarrow>
                       (let r = onEvent env document (fst s, adapter)
                        in (fst r, p1\<lparr>adapters := AList.update name (snd r) (adapters p1)\<rparr>)))))
      else s)"

text \<open>The listeners of \<^verbatim>\<open>"error"\<close> (\<open>notResumable\<close>: a \<^verbatim>\<open>MongoServerError\<close> without
  the label \<^verbatim>\<open>ResumableChangeStreamError\<close>) and of \<^verbatim>\<open>"close"\<close>, whose timer calls
  \<^verbatim>\<open>initChangeStream\<close> a second later.\<close>

definition onError :: "bool \<Rightarrow> Process \<Rightarrow> Process" where
  "onError notResumable p = (if notResumable then p\<lparr>resumeToken := None\<rparr> else p)"

definition onClose :: "Process \<Rightarrow> Process" where
  "onClose p =
     initChangeStream
       (p\<lparr>changeStream := map_option (\<lambda>cs. cs\<lparr>stream_closed := True\<rparr>) (changeStream p)\<rparr>)"

text \<open>What the store does with a change: the open stream of a process emits it when it
  passes the pipeline the stream was opened with.\<close>

definition deliver ::
  "Env \<Rightarrow> ChangeEvent \<Rightarrow> Collection \<times> Process \<Rightarrow> Collection \<times> Process" where
  "deliver env event s =
     (case changeStream (snd s) of
        None \<Rightarrow> s
      | Some cs \<Rightarrow>
          if stream_closed cs \<or> \<not> pipelineMatches cs event then s else onChange env event s)"

definition insertEvent :: "AdapterEvent \<Rightarrow> ChangeEvent" where
  "insertEvent document =
     \<lparr>operationType = ''insert'', fullDocument = Some document, eventToken = event_id document\<rparr>"

section \<open>Sample inputs\<close>

definition adapterA :: MongoAdapter where
  "adapterA =
     \<lparr>uid = ''a'', nsp_name = ''/'', connectionStateRecovery = True,
      requestsTimeout = 200, heartbeatInterval = 5000, heartbeatTimeout = 200,
      addCreatedAtField = False, nodesMap = [], heartbeatTimer = None, requests = [],
      ackRequests = [], isClosed = False, effects = []\<rparr>"

definition env0 :: Env where
  "env0 = \<lparr>now = 300, insertedId = Some 7, randomId = ''r1'', localSockets = [Str ''s0'']\<rparr>"

definition optsAll :: BroadcastOptions where
  "optsAll = \<lparr>opt_rooms = [], opt_except = None, opt_flags = None\<rparr>"

definition optsLocal :: BroadcastOptions where
  "optsLocal =
     \<lparr>opt_rooms = [], opt_except = None,
      opt_flags = Some \<lparr>flag_local = True, flag_volatile = None, flag_timeout = None\<rparr>\<rparr>"

definition packet0 :: Packet where
  "packet0 = \<lparr>packet_type = 2, packet_id = None, packet_data = Some [Str ''hello'']\<rparr>"

definition adapterB :: MongoAdapter where
  "adapterB = adapterA\<lparr>nodesMap := [(''b'', 250), (''c'', 250)]\<rparr>"

text \<open>A response of peer \<open>b\<close> to the request \<open>r1\<close> of \<^verbatim>\<open>fetchSockets\<close>, and one to the
  request \<open>r1\<close> of \<^verbatim>\<open>serverSideEmit\<close>.\<close>

definition fetchResponseB :: AdapterEvent where
  "fetchResponseB =
     \<lparr>event_id = 8, event_type = FETCH_SOCKETS_RESPONSE, event_uid = Some ''b'',
      event_nsp = Some ''/'', createdAt = None,
      event_data = FetchSocketsResponseData ''r1'' [Str ''s1'']\<rparr>"

definition emitResponseB :: AdapterEvent where
  "emitResponseB =
     \<lparr>event_id = 8, event_type = SERVER_SIDE_EMIT_RESPONSE, event_uid = Some ''b'',
      event_nsp = Some ''/'', createdAt = None,
      event_data = ServerSideEmitResponseData ''r1'' (Num 2)\<rparr>"

text \<open>An instance of the \<^verbatim>\<open>ObjectId\<close> class for the examples only: it reads 24
  hexadecimal digits and nothing else, while the driver accepts other forms as well. The
  properties of \<^verbatim>\<open>restoreSession\<close> hold for every instance.\<close>

definition hexDigit :: "char \<Rightarrow> nat option" where
  "hexDigit c =
     (let n = (of_char c :: nat) in
      if 48 \<le> n \<and> n \<le> 57 then Some (n - 48)
      else if 97 \<le> n \<and> n \<le> 102 then Some (n - 87)
      else if 65 \<le> n \<and> n \<le> 70 then Some (n - 55)
      else None)"

definition objectIdOfHex :: "string \<Rightarrow> ObjectId option" where
  "objectIdOfHex s =
     (if length s = 24 \<and> list_all (\<lambda>c. hexDigit c \<noteq> None) s
      then Some (foldl (\<lambda>n c. 16 * n + (case hexDigit c of None \<Rightarrow> 0 | Some v \<Rightarrow> v)) 0 s)
      else None)"

text \<open>A broadcast document of namespace \<open>/\<close> written by peer \<open>b\<close>.\<close>

definition broadcastDoc :: "ObjectId \<Rightarrow> string \<Rightarrow> Room list \<Rightarrow> Room list \<Rightarrow> AdapterEvent" where
  "broadcastDoc oid ev rs ex =
     \<lparr>event_id = oid, event_type = BROADCAST, event_uid = Some ''b'', event_nsp = Some ''/'',
      createdAt = None,
      event_data =
        BroadcastData \<lparr>packet_type = 2, packet_id = None, packet_data = Some [Str ev]\<rparr>
          \<lparr>ser_rooms = rs, ser_except = ex, ser_flags = None\<rparr> None\<rparr>"

definition session1 :: Session where
  "session1 =
     \<lparr>session_sid = ''sid1'', session_pid = ''pid1'', session_rooms = [''r1''],
      session_data = Str ''data''\<rparr>"

definition sessionDoc :: AdapterEvent where
  "sessionDoc =
     \<lparr>event_id = 15, event_type = SESSION, event_uid = Some ''b'', event_nsp = Some ''/'',
      createdAt = None, event_data = SessionData session1\<rparr>"

text \<open>The collection of the room-filtered replay: the document at the offset, four missed
  broadcasts and the session.\<close>

definition store1 :: Collection where
  "store1 =
     [broadcastDoc 10 ''e0'' [] [],
      broadcastDoc 11 ''e1'' [] [],
      broadcastDoc 12 ''e2'' [''r1''] [],
      broadcastDoc 13 ''e3'' [''r2''] [],
      broadcastDoc 14 ''e4'' [] [''r1''],
      sessionDoc]"

definition offset1 :: string where
  "offset1 = ''00000000000000000000000a''"

definition noFailures :: StoreFailures where
  "noFailures = \<lparr>findOneAndDeleteFails = False, findOneFails = False, cursorFails = False\<rparr>"

definition restored1 :: RestoredSession where
  "restored1 = Session.extend session1 (RestoredSession.fields [[Str ''e1''], [Str ''e2'']])"

text \<open>Two processes, each with an adapter for the namespace \<open>/\<close>.\<close>

definition procA :: Process where
  "procA = snd (attach env0 ''/'' True ([], createAdapter env0 (Some ''a'') None None None None))"

definition procB :: Process where
  "procB = snd (attach env0 ''/'' True ([], createAdapter env0 (Some ''b'') None None None None))"

definition adapterOfA :: MongoAdapter where
  "adapterOfA = snd (newMongoAdapter env0 ''/'' True (process_opts procA) [])"

definition adapterOfB :: MongoAdapter where
  "adapterOfB = snd (newMongoAdapter env0 ''/'' True (process_opts procB) [])"

text \<open>The document that the adapter of the first process publishes for a broadcast.\<close>

definition broadcastA :: AdapterEvent where
  "broadcastA =
     \<lparr>event_id = 7, event_type = BROADCAST, event_uid = Some ''a'', event_nsp = Some ''/'',
      createdAt = None,
      event_data = BroadcastData packet0 (serializeOptions optsAll) None\<rparr>"

text \<open>A heartbeat of peer \<open>c\<close>.\<close>

definition heartbeatC :: AdapterEvent where
  "heartbeatC =
     \<lparr>event_id = 9, event_type = HEARTBEAT, event_uid = Some ''c'', event_nsp = Some ''/'',
      createdAt = None, event_data = NoData\<rparr>"

section \<open>What the properties are stated with\<close>

text \<open>The document that a successful \<^verbatim>\<open>publish\<close> of the adapter inserts.\<close>

definition published :: "Env \<Rightarrow> MongoAdapter \<Rightarrow> EventType \<Rightarrow> EventData \<Rightarrow> AdapterEvent" where
  "published env a t d =
     \<lparr>event_id = (case insertedId env of None \<Rightarrow> 0 | Some oid \<Rightarrow> oid), event_type = t,
      event_uid = Some (uid a), event_nsp = Some (nsp_name a),
      createdAt = (if addCreatedAtField a then Some (now env) else None), event_data = d\<rparr>"

text \<open>\<open>coll'\<close> is \<open>coll\<close> with exactly one more document, of type \<open>t\<close>.\<close>

definition publishesOne :: "EventType \<Rightarrow> Collection \<Rightarrow> Collection \<Rightarrow> bool" where
  "publishesOne t coll coll' =
     (length coll' = length coll + 1 \<and> take (length coll) coll' = coll
      \<and> event_type (last coll') = t)"

text \<open>The adapter receives the documents one after the other.\<close>

definition onEvents ::
  "Env \<Rightarrow> AdapterEvent list \<Rightarrow> Collection \<times> MongoAdapter \<Rightarrow> Collection \<times> MongoAdapter" where
  "onEvents env documents s = foldl (\<lambda>s' document. onEvent env document s') s documents"

text \<open>The responses to a request: \<^verbatim>\<open>onEvent\<close> looks the request up by the
  \<^verbatim>\<open>requestId\<close> of the document alone, so a document of either response type that carries
  the id of a request is a response to it.\<close>

definition isEmitResponse :: "string \<Rightarrow> AdapterEvent \<Rightarrow> bool" where
  "isEmitResponse requestId document =
     (event_type document = SERVER_SIDE_EMIT_RESPONSE
      \<and> (case event_data document of
            ServerSideEmitResponseData r packet \<Rightarrow> r = requestId
          | _ \<Rightarrow> False))"

definition isFetchResponse :: "string \<Rightarrow> AdapterEvent \<Rightarrow> bool" where
  "isFetchResponse requestId document =
     (event_type document = FETCH_SOCKETS_RESPONSE
      \<and> (case event_data document of
            FetchSocketsResponseData r sockets \<Rightarrow> r = requestId
          | _ \<Rightarrow> False))"

definition respondsTo :: "string \<Rightarrow> AdapterEvent \<Rightarrow> bool" where
  "respondsTo requestId document =
     (isFetchResponse requestId document \<or> isEmitResponse requestId document)"

text \<open>What a response adds to the responses of its request: the sockets of a
  \<^verbatim>\<open>FETCH_SOCKETS_RESPONSE\<close>, the packet of a \<^verbatim>\<open>SERVER_SIDE_EMIT_RESPONSE\<close>.\<close>

definition responseOf :: "AdapterEvent \<Rightarrow> Value list" where
  "responseOf document =
     (case event_data document of
        FetchSocketsResponseData r sockets \<Rightarrow> sockets
      | ServerSideEmitResponseData r packet \<Rightarrow> [packet]
      | _ \<Rightarrow> [])"

text \<open>A session document of the private id \<open>pid\<close>, a broadcast document at \<open>eventOffset\<close>,
  and a broadcast that a session in \<open>rooms\<close> of the adapter's namespace has missed since
  \<open>eventOffset\<close>.\<close>

definition isSessionOf :: "string \<Rightarrow> AdapterEvent \<Rightarrow> bool" where
  "isSessionOf pid d =
     (event_type d = SESSION
      \<and> (case event_data d of SessionData session \<Rightarrow> session_pid session = pid | _ \<Rightarrow> False))"

definition isBroadcastAt :: "ObjectId \<Rightarrow> AdapterEvent \<Rightarrow> bool" where
  "isBroadcastAt eventOffset d = (event_type d = BROADCAST \<and> event_id d = eventOffset)"

definition missedBy :: "MongoAdapter \<Rightarrow> ObjectId \<Rightarrow> Room list \<Rightarrow> AdapterEvent \<Rightarrow> bool" where
  "missedBy a eventOffset rooms d =
     (event_type d = BROADCAST
      \<and> event_nsp d = Some (nsp_name a)
      \<and> eventOffset < event_id d
      \<and> (case data_opts (event_data d) of
            None \<Rightarrow> False
          | Some os \<Rightarrow>
              (ser_rooms os = [] \<or> (\<exists>r\<in>set (ser_rooms os). r \<in> set rooms))
              \<and> (ser_except os = [] \<or> (\<forall>r\<in>set (ser_except os). r \<notin> set rooms))))"

text \<open>What \<^verbatim>\<open>createAdapter\<close> sets up and the steps of the process keep: the change
  stream excludes the uid of the options, and every adapter of the process publishes under it.\<close>

definition processInv :: "Process \<Rightarrow> bool" where
  "processInv p =
     ((case changeStream p of
         None \<Rightarrow> True
       | Some cs \<Rightarrow> match_ne_uid cs = opts_uid (process_opts p))
      \<and> list_all (\<lambda>(name, a). uid a = opts_uid (process_opts p)) (adapters p))"

section \<open>Basic facts\<close>

lemma publish_rejected:
  "fst (publish env t d (coll, a)) = Inl e \<Longrightarrow>
     fst (snd (publish env t d (coll, a))) = coll
     \<and> effects (snd (snd (publish env t d (coll, a)))) = effects a
     \<and> requests (snd (snd (publish env t d (coll, a)))) = requests a"
  by (simp add: publish_def scheduleHeartbeat_def Let_def split: if_splits option.splits)

lemma publish_open:
  "\<not> isClosed a \<Longrightarrow> insertedId env \<noteq> None \<Longrightarrow>
     publish env t d (coll, a)
       = (Inr (toHexString (the (insertedId env))), coll @ [published env a t d],
          scheduleHeartbeat env a)"
  by (auto simp add: publish_def published_def Let_def)

lemma publishesOne_append: "publishesOne t coll (coll @ [published env a t d])"
  by (simp add: publishesOne_def published_def)

lemma emit_fields [simp]:
  "isClosed (emit e a) = isClosed a" "uid (emit e a) = uid a" "nsp_name (emit e a) = nsp_name a"
  "addCreatedAtField (emit e a) = addCreatedAtField a" "effects (emit e a) = effects a @ [e]"
  "requests (emit e a) = requests a" "nodesMap (emit e a) = nodesMap a"
  by (simp_all add: emit_def)

lemma expected_fields [simp]:
  "isClosed (snd (getExpectedResponseCount env a)) = isClosed a"
  "uid (snd (getExpectedResponseCount env a)) = uid a"
  "nsp_name (snd (getExpectedResponseCount env a)) = nsp_name a"
  "addCreatedAtField (snd (getExpectedResponseCount env a)) = addCreatedAtField a"
  "effects (snd (getExpectedResponseCount env a)) = effects a"
  "requests (snd (getExpectedResponseCount env a)) = requests a"
  by (simp_all add: getExpectedResponseCount_def Let_def)

lemma published_cong [simp]:
  "published env (a\<lparr>requests := rs\<rparr>) t d = published env a t d"
  "published env (a\<lparr>ackRequests := as\<rparr>) t d = published env a t d"
  "published env (emit e a) t d = published env a t d"
  "published env (snd (getExpectedResponseCount env' a)) t d = published env a t d"
  by (simp_all add: published_def)

lemma publish_snd [simp]:
  "effects (snd (snd (publish env t d s))) = effects (snd s)"
  "requests (snd (snd (publish env t d s))) = requests (snd s)"
  by (cases s; simp add: publish_def scheduleHeartbeat_def Let_def split: option.splits)+

lemma expected_timeout [simp]:
  "requestsTimeout (snd (getExpectedResponseCount env a)) = requestsTimeout a"
  by (simp add: getExpectedResponseCount_def Let_def)

lemma showNat_1: "showNat (Suc 0) = ''1''"
  by (simp add: showNat.simps)

lemma showNat_2: "showNat 2 = ''2''" "showNat (Suc (Suc 0)) = ''2''"
  by (simp_all add: showNat.simps)

lemma expected_B: "getExpectedResponseCount env0 adapterB = (2, adapterB)"
  by (simp add: getExpectedResponseCount_def adapterB_def adapterA_def env0_def nodeSeemsDown_def)

section \<open>Properties of peer liveness\<close>

text \<open>
  C1. The claim: \<^verbatim>\<open>serverCount()\<close> is one plus the number of peers left after the stale
  ones are pruned, that is, one plus \<^verbatim>\<open>getExpectedResponseCount()\<close>. The source returns
  \<^verbatim>\<open>1 + this.nodesMap.size\<close> without pruning: with a heartbeat timeout of 200 ms and one
  peer last seen 300 ms ago, \<^verbatim>\<open>serverCount()\<close> is 2 while one plus the expected response
  count is 1.
\<close>

theorem serverCount_counts_stale_peer:
  "fst (serverCount (adapterA\<lparr>nodesMap := [(''b'', 0)]\<rparr>)) = 2
   \<and> 1 + fst (getExpectedResponseCount env0 (adapterA\<lparr>nodesMap := [(''b'', 0)]\<rparr>)) = 1"
  by (simp add: serverCount_def getExpectedResponseCount_def nodeSeemsDown_def adapterA_def
      env0_def)

section \<open>Properties of publishing\<close>

text \<open>
  C7. Once the adapter is closed, publishing a document of any type and payload rejects with
  \<^verbatim>\<open>"adapter is closed"\<close> and leaves the collection (and the adapter) as they were; an
  adapter that is not closed never rejects with that reason.
\<close>

theorem publish_after_close:
  "publish env t d (coll, close a) = (Inl (Message ''adapter is closed''), coll, close a)
   \<and> (isClosed a \<longrightarrow> publish env t d (coll, a) = (Inl (Message ''adapter is closed''), coll, a))
   \<and> (\<not> isClosed a \<longrightarrow> fst (publish env t d (coll, a)) \<noteq> Inl (Message ''adapter is closed''))"
  by (simp add: publish_def close_def Let_def split: option.splits)

theorem publish_after_close_witness:
  "publish env0 BROADCAST NoData ([], close adapterA)
     = (Inl (Message ''adapter is closed''), [], close adapterA)
   \<and> isClosed (close adapterA)
   \<and> \<not> isClosed adapterA
   \<and> fst (publish env0 BROADCAST NoData ([], adapterA)) \<noteq> Inl (Message ''adapter is closed'')"
  using publish_after_close [of env0 BROADCAST NoData "[]" "close adapterA"]
    publish_after_close [of env0 BROADCAST NoData "[]" adapterA]
  by (simp add: adapterA_def close_def)

section \<open>Properties of the local flag\<close>

lemma local_broadcast:
  "onlyLocal opts \<Longrightarrow>
     broadcast env packet opts (coll, a) = (Inr (), coll, emit (SuperBroadcast packet opts) a)"
  by (simp add: broadcast_def)

lemma local_broadcastWithAck:
  "onlyLocal opts \<Longrightarrow>
     broadcastWithAck env packet opts (coll, a)
       = (Inr (), coll, emit (SuperBroadcastWithAck packet opts None) a)"
  by (simp add: broadcastWithAck_def)

lemma local_addSockets:
  "onlyLocal opts \<Longrightarrow> addSockets env opts rooms (coll, a) = (coll, emit (SuperAddSockets opts rooms) a)"
  by (simp add: addSockets_def)

lemma local_delSockets:
  "onlyLocal opts \<Longrightarrow> delSockets env opts rooms (coll, a) = (coll, emit (SuperDelSockets opts rooms) a)"
  by (simp add: delSockets_def)

lemma local_disconnectSockets:
  "onlyLocal opts \<Longrightarrow>
     disconnectSockets env opts cl (coll, a) = (coll, emit (SuperDisconnectSockets opts cl) a)"
  by (simp add: disconnectSockets_def)

lemma local_fetchSockets:
  "onlyLocal opts \<Longrightarrow>
     fetchSockets env opts (coll, a)
       = (Some (localSockets env), coll, snd (getExpectedResponseCount env a))"
  by (cases "getExpectedResponseCount env a") (simp add: fetchSockets_def)

lemma remote_broadcast:
  "\<not> onlyLocal opts \<Longrightarrow> \<not> isClosed a \<Longrightarrow> insertedId env \<noteq> None \<Longrightarrow>
     fst (snd (broadcast env packet opts (coll, a)))
       = coll @ [published env a BROADCAST (BroadcastData packet (serializeOptions opts) None)]"
  by (simp add: broadcast_def publish_open split: option.splits)

lemma remote_broadcastWithAck:
  "\<not> onlyLocal opts \<Longrightarrow> \<not> isClosed a \<Longrightarrow> insertedId env \<noteq> None \<Longrightarrow>
     fst (snd (broadcastWithAck env packet opts (coll, a)))
       = coll @ [published env a BROADCAST
                   (BroadcastData packet (serializeOptions opts) (Some (randomId env)))]"
  by (simp add: broadcastWithAck_def publish_open Let_def split: option.splits)

lemma remote_addSockets:
  "\<not> onlyLocal opts \<Longrightarrow> \<not> isClosed a \<Longrightarrow> insertedId env \<noteq> None \<Longrightarrow>
     fst (addSockets env opts rooms (coll, a))
       = coll @ [published env a SOCKETS_JOIN (RoomsData (serializeOptions opts) rooms)]"
  by (simp add: addSockets_def publish_open Let_def)

lemma remote_delSockets:
  "\<not> onlyLocal opts \<Longrightarrow> \<not> isClosed a \<Longrightarrow> insertedId env \<noteq> None \<Longrightarrow>
     fst (delSockets env opts rooms (coll, a))
       = coll @ [published env a SOCKETS_LEAVE (RoomsData (serializeOptions opts) rooms)]"
  by (simp add: delSockets_def publish_open Let_def)

lemma remote_disconnectSockets:
  "\<not> onlyLocal opts \<Longrightarrow> \<not> isClosed a \<Longrightarrow> insertedId env \<noteq> None \<Longrightarrow>
     fst (disconnectSockets env opts cl (coll, a))
       = coll @ [published env a DISCONNECT_SOCKETS (DisconnectData (serializeOptions opts) cl)]"
  by (simp add: disconnectSockets_def publish_open Let_def)

lemma remote_fetchSockets:
  "\<not> onlyLocal opts \<Longrightarrow> \<not> isClosed a \<Longrightarrow> insertedId env \<noteq> None \<Longrightarrow>
   fst (getExpectedResponseCount env a) \<noteq> 0 \<Longrightarrow>
     fst (snd (fetchSockets env opts (coll, a)))
       = coll @ [published env a FETCH_SOCKETS
                   (FetchSocketsData (serializeOptions opts) (randomId env))]"
proof -
  assume h: "\<not> onlyLocal opts" "\<not> isClosed a" "insertedId env \<noteq> None"
    "fst (getExpectedResponseCount env a) \<noteq> 0"
  obtain n a1 where e: "getExpectedResponseCount env a = (n, a1)"
    by (cases "getExpectedResponseCount env a")
  have a1: "a1 = snd (getExpectedResponseCount env a)" by (simp add: e)
  have c: "\<not> isClosed a1" using h(2) by (simp add: a1)
  show ?thesis using h e c
    by (simp add: fetchSockets_def Let_def publish_open) (simp add: a1)
qed

text \<open>
  C8, as amended. With the local flag, \<^verbatim>\<open>broadcast\<close>, \<^verbatim>\<open>broadcastWithAck\<close>,
  \<^verbatim>\<open>addSockets\<close>, \<^verbatim>\<open>delSockets\<close>, \<^verbatim>\<open>disconnectSockets\<close> and \<^verbatim>\<open>fetchSockets\<close>
  leave the collection as it is and only make the call to the base class (or return the local
  sockets). Without the flag, on an adapter that is not closed and with an insertion that
  succeeds, each of the first five adds exactly one document of its type; \<^verbatim>\<open>fetchSockets\<close>
  does so when the expected response count is not zero.
\<close>

theorem local_flag_replication:
  "(onlyLocal opts \<longrightarrow>
      broadcast env packet opts (coll, a) = (Inr (), coll, emit (SuperBroadcast packet opts) a)
      \<and> broadcastWithAck env packet opts (coll, a)
          = (Inr (), coll, emit (SuperBroadcastWithAck packet opts None) a)
      \<and> addSockets env opts rooms (coll, a) = (coll, emit (SuperAddSockets opts rooms) a)
      \<and> delSockets env opts rooms (coll, a) = (coll, emit (SuperDelSockets opts rooms) a)
      \<and> disconnectSockets env opts cl (coll, a)
          = (coll, emit (SuperDisconnectSockets opts cl) a)
      \<and> fetchSockets env opts (coll, a)
          = (Some (localSockets env), coll, snd (getExpectedResponseCount env a)))
   \<and> (\<not> onlyLocal opts \<and> \<not> isClosed a \<and> insertedId env \<noteq> None \<longrightarrow>
      publishesOne BROADCAST coll (fst (snd (broadcast env packet opts (coll, a))))
      \<and> publishesOne BROADCAST coll (fst (snd (broadcastWithAck env packet opts (coll, a))))
      \<and> publishesOne SOCKETS_JOIN coll (fst (addSockets env opts rooms (coll, a)))
      \<and> publishesOne SOCKETS_LEAVE coll (fst (delSockets env opts rooms (coll, a)))
      \<and> publishesOne DISCONNECT_SOCKETS coll (fst (disconnectSockets env opts cl (coll, a)))
      \<and> (fst (getExpectedResponseCount env a) \<noteq> 0 \<longrightarrow>
           publishesOne FETCH_SOCKETS coll (fst (snd (fetchSockets env opts (coll, a))))))"
proof -
  have L: "onlyLocal opts \<longrightarrow>
      broadcast env packet opts (coll, a) = (Inr (), coll, emit (SuperBroadcast packet opts) a)
      \<and> broadcastWithAck env packet opts (coll, a)
          = (Inr (), coll, emit (SuperBroadcastWithAck packet opts None) a)
      \<and> addSockets env opts rooms (coll, a) = (coll, emit (SuperAddSockets opts rooms) a)
      \<and> delSockets env opts rooms (coll, a) = (coll, emit (SuperDelSockets opts rooms) a)
      \<and> disconnectSockets env opts cl (coll, a)
          = (coll, emit (SuperDisconnectSockets opts cl) a)
      \<and> fetchSockets env opts (coll, a)
          = (Some (localSockets env), coll, snd (getExpectedResponseCount env a))"
    by (simp add: local_broadcast local_broadcastWithAck local_addSockets local_delSockets
        local_disconnectSockets local_fetchSockets)
  have R: "\<not> onlyLocal opts \<and> \<not> isClosed a \<and> insertedId env \<noteq> None \<longrightarrow>
      publishesOne BROADCAST coll (fst (snd (broadcast env packet opts (coll, a))))
      \<and> publishesOne BROADCAST coll (fst (snd (broadcastWithAck env packet opts (coll, a))))
      \<and> publishesOne SOCKETS_JOIN coll (fst (addSockets env opts rooms (coll, a)))
      \<and> publishesOne SOCKETS_LEAVE coll (fst (delSockets env opts rooms (coll, a)))
      \<and> publishesOne DISCONNECT_SOCKETS coll (fst (disconnectSockets env opts cl (coll, a)))
      \<and> (fst (getExpectedResponseCount env a) \<noteq> 0 \<longrightarrow>
           publishesOne FETCH_SOCKETS coll (fst (snd (fetchSockets env opts (coll, a)))))"
    by (simp add: remote_broadcast remote_broadcastWithAck remote_addSockets remote_delSockets
        remote_disconnectSockets remote_fetchSockets publishesOne_append)
  from L R show ?thesis by (rule conjI)
qed

theorem local_flag_replication_witness:
  "onlyLocal optsLocal
   \<and> fst (snd (broadcast env0 packet0 optsLocal ([], adapterB))) = []
   \<and> fst (addSockets env0 optsLocal [''room1''] ([], adapterB)) = []
   \<and> fetchSockets env0 optsLocal ([], adapterB) = (Some [Str ''s0''], [], adapterB)
   \<and> \<not> onlyLocal optsAll \<and> \<not> isClosed adapterB \<and> insertedId env0 \<noteq> None
   \<and> fst (getExpectedResponseCount env0 adapterB) \<noteq> 0
   \<and> publishesOne BROADCAST [] (fst (snd (broadcast env0 packet0 optsAll ([], adapterB))))
   \<and> publishesOne SOCKETS_JOIN [] (fst (addSockets env0 optsAll [''room1''] ([], adapterB)))
   \<and> publishesOne FETCH_SOCKETS [] (fst (snd (fetchSockets env0 optsAll ([], adapterB))))"
proof -
  have h1: "onlyLocal optsLocal" by (simp add: onlyLocal_def optsLocal_def)
  have h2: "\<not> onlyLocal optsAll" by (simp add: onlyLocal_def optsAll_def)
  have h3: "\<not> isClosed adapterB" by (simp add: adapterB_def adapterA_def)
  have h4: "insertedId env0 \<noteq> None" by (simp add: env0_def)
  have h5: "fst (getExpectedResponseCount env0 adapterB) \<noteq> 0" by (simp add: expected_B)
  have l: "localSockets env0 = [Str ''s0'']" by (simp add: env0_def)
  from local_flag_replication [of optsLocal env0 packet0 "[]" adapterB "[''room1'']" False] h1
  have A: "fst (snd (broadcast env0 packet0 optsLocal ([], adapterB))) = []"
    "fst (addSockets env0 optsLocal [''room1''] ([], adapterB)) = []"
    "fetchSockets env0 optsLocal ([], adapterB) = (Some [Str ''s0''], [], adapterB)"
    by (simp_all add: expected_B l)
  from local_flag_replication [of optsAll env0 packet0 "[]" adapterB "[''room1'']" False] h2 h3 h4 h5
  have B: "publishesOne BROADCAST [] (fst (snd (broadcast env0 packet0 optsAll ([], adapterB))))"
    "publishesOne SOCKETS_JOIN [] (fst (addSockets env0 optsAll [''room1''] ([], adapterB)))"
    "publishesOne FETCH_SOCKETS [] (fst (snd (fetchSockets env0 optsAll ([], adapterB))))"
    by blast+
  from h1 h2 h3 h4 h5 A B show ?thesis by blast
qed

text \<open>
  C8, as stated, fails: \<^verbatim>\<open>fetchSockets\<close> without the local flag, on an open adapter that
  knows no peer, returns the local sockets and publishes nothing.
\<close>

theorem fetchSockets_without_peers_publishes_nothing:
  "\<not> onlyLocal optsAll \<and> \<not> isClosed adapterA \<and> insertedId env0 \<noteq> None
   \<and> fetchSockets env0 optsAll ([], adapterA) = (Some [Str ''s0''], [], adapterA)
   \<and> \<not> publishesOne FETCH_SOCKETS [] (fst (snd (fetchSockets env0 optsAll ([], adapterA))))"
  by (simp add: fetchSockets_def getExpectedResponseCount_def onlyLocal_def optsAll_def
      adapterA_def env0_def publishesOne_def)

section \<open>Properties of requests\<close>

text \<open>
  C6. When the expected response count computed by the call is zero, \<^verbatim>\<open>fetchSockets\<close>
  returns the local sockets at once and \<^verbatim>\<open>serverSideEmit\<close> with an acknowledgement calls
  it with \<^verbatim>\<open>(null, [])\<close>; neither changes the collection nor registers a request.
\<close>

theorem no_peers_no_request:
  assumes "fst (getExpectedResponseCount env a) = 0"
  shows "fetchSockets env opts (coll, a)
           = (Some (localSockets env), coll, snd (getExpectedResponseCount env a))
         \<and> serverSideEmit env packet True (coll, a)
           = (coll, emit (Call AckFunction [Null, Responses []])
                      (snd (getExpectedResponseCount env a)))
         \<and> requests (snd (getExpectedResponseCount env a)) = requests a"
proof -
  obtain n a1 where e: "getExpectedResponseCount env a = (n, a1)"
    by (cases "getExpectedResponseCount env a")
  with assms have n: "n = 0" by simp
  have "fetchSockets env opts (coll, a)
           = (Some (localSockets env), coll, snd (getExpectedResponseCount env a))"
    by (simp add: fetchSockets_def e n)
  moreover have "serverSideEmit env packet True (coll, a)
           = (coll, emit (Call AckFunction [Null, Responses []])
                      (snd (getExpectedResponseCount env a)))"
    by (simp add: serverSideEmit_def serverSideEmitWithAck_def e n)
  ultimately show ?thesis by simp
qed

theorem no_peers_no_request_witness:
  "fst (getExpectedResponseCount env0 (adapterA\<lparr>nodesMap := [(''b'', 0)]\<rparr>)) = 0
   \<and> fetchSockets env0 optsAll ([], adapterA\<lparr>nodesMap := [(''b'', 0)]\<rparr>)
       = (Some [Str ''s0''], [], adapterA)
   \<and> serverSideEmit env0 [Str ''hello''] True ([], adapterA\<lparr>nodesMap := [(''b'', 0)]\<rparr>)
       = ([], adapterA\<lparr>effects := [Call AckFunction [Null, Responses []]]\<rparr>)"
proof -
  have e: "getExpectedResponseCount env0 (adapterA\<lparr>nodesMap := [(''b'', 0)]\<rparr>) = (0, adapterA)"
    by (simp add: getExpectedResponseCount_def nodeSeemsDown_def adapterA_def env0_def)
  then have h: "fst (getExpectedResponseCount env0 (adapterA\<lparr>nodesMap := [(''b'', 0)]\<rparr>)) = 0"
    by simp
  have l: "localSockets env0 = [Str ''s0'']" by (simp add: env0_def)
  have m: "emit (Call AckFunction [Null, Responses []]) adapterA
             = adapterA\<lparr>effects := [Call AckFunction [Null, Responses []]]\<rparr>"
    by (simp add: emit_def adapterA_def)
  from no_peers_no_request [OF h, of optsAll "[]" "[Str ''hello'']"] h
  show ?thesis by (simp add: e l m)
qed

lemma emit_registers:
  assumes "fst (getExpectedResponseCount env a) = E" "0 < E"
  shows "map_of (requests (snd (serverSideEmit env packet True (coll, a)))) (randomId env)
           = Some \<lparr>request_type = FETCH_SOCKETS, resolve = AckFunction,
                   timeout = now env + requestsTimeout a, expected = E, current = 0,
                   responses = []\<rparr>
         \<and> effects (snd (serverSideEmit env packet True (coll, a))) = effects a"
  using assms
  by (cases "getExpectedResponseCount env a")
     (use expected_fields [of env a] expected_timeout [of env a] in
       \<open>simp add: serverSideEmit_def serverSideEmitWithAck_def Let_def update_conv'
          del: expected_fields expected_timeout\<close>)

lemma fetch_registers:
  assumes "fst (getExpectedResponseCount env a) = E" "0 < E" "\<not> onlyLocal opts"
  shows "map_of (requests (snd (snd (fetchSockets env opts (coll, a))))) (randomId env)
           = Some \<lparr>request_type = FETCH_SOCKETS, resolve = PromiseResolve,
                   timeout = now env + requestsTimeout a, expected = E, current = 0,
                   responses = localSockets env\<rparr>
         \<and> effects (snd (snd (fetchSockets env opts (coll, a)))) = effects a
         \<and> fst (fetchSockets env opts (coll, a)) = None"
  using assms
  by (cases "getExpectedResponseCount env a")
     (use expected_fields [of env a] expected_timeout [of env a] in
       \<open>simp add: fetchSockets_def Let_def update_conv' case_prod_beta
          del: expected_fields expected_timeout\<close>)

text \<open>A document that is not a response to the request leaves it as it is; a response counts
  and adds what it carries.\<close>

lemma onEvent_pending:
  assumes "map_of (requests (snd s)) rid = Some req"
    and "respondsTo rid d \<longrightarrow> current req + 1 < expected req"
  shows "map_of (requests (snd (onEvent env d s))) rid
           = Some (if respondsTo rid d
                   then req\<lparr>current := current req + 1, responses := responses req @ responseOf d\<rparr>
                   else req)"
proof -
  obtain coll a where s: "s = (coll, a)" by (cases s)
  have "map_of (requests (snd (handle env oid t x (coll, a')))) rid
           = Some (if respondsTo rid d
                   then req\<lparr>current := current req + 1, responses := responses req @ responseOf d\<rparr>
                   else req)"
    if "map_of (requests a') rid = Some req" "oid = event_id d" "t = event_type d"
      "x = event_data d" for a' oid t x
    using that assms(2)
    apply (simp add: handle_def settle_def Let_def update_conv' delete_conv'
        respondsTo_def isFetchResponse_def isEmitResponse_def responseOf_def
        split: option.splits EventType.splits EventData.splits)
    apply auto
    done
  then show ?thesis using assms(1)
    by (simp add: s onEvent_def Let_def split: option.splits)
qed

lemma onEvents_pending:
  assumes "map_of (requests (snd s)) rid = Some req"
    and "current req + length (filter (respondsTo rid) docs) < expected req"
  shows "map_of (requests (snd (onEvents env docs s))) rid
           = Some (req\<lparr>current := current req + length (filter (respondsTo rid) docs),
                       responses := responses req
                          @ concat (map responseOf (filter (respondsTo rid) docs))\<rparr>)"
  using assms
proof (induction docs arbitrary: s req)
  case Nil
  then show ?case by (simp add: onEvents_def)
next
  case (Cons d docs)
  let ?req1 = "if respondsTo rid d
               then req\<lparr>current := current req + 1, responses := responses req @ responseOf d\<rparr>
               else req"
  from Cons.prems(2) have "respondsTo rid d \<longrightarrow> current req + 1 < expected req"
    by (auto split: if_splits)
  with Cons.prems(1) have r1: "map_of (requests (snd (onEvent env d s))) rid = Some ?req1"
    by (rule onEvent_pending)
  from Cons.prems(2)
  have "current ?req1 + length (filter (respondsTo rid) docs) < expected ?req1"
    by (auto split: if_splits)
  from Cons.IH [OF r1 this]
  have "map_of (requests (snd (onEvents env docs (onEvent env d s)))) rid
           = Some (?req1\<lparr>current := current ?req1 + length (filter (respondsTo rid) docs),
                       responses := responses ?req1
                          @ concat (map responseOf (filter (respondsTo rid) docs))\<rparr>)" .
  moreover have "onEvents env (d # docs) s = onEvents env docs (onEvent env d s)"
    by (simp add: onEvents_def)
  ultimately show ?case by (cases "respondsTo rid d") simp_all
qed




section \<open>Properties of broadcast\<close>

text \<open>
  C10. When \<^verbatim>\<open>broadcast\<close> is called without the local flag and the publish of the
  \<^verbatim>\<open>BROADCAST\<close> document fails, \<^verbatim>\<open>broadcast\<close> returns normally, the collection is
  unchanged and no call to \<^verbatim>\<open>super.broadcast\<close> (nor any other) is made.
\<close>

theorem broadcast_publish_fails:
  assumes "\<not> onlyLocal opts"
    and "fst (publish env BROADCAST (BroadcastData packet (serializeOptions opts) None) (coll, a))
           = Inl err"
  shows "fst (broadcast env packet opts (coll, a)) = Inr ()
         \<and> fst (snd (broadcast env packet opts (coll, a))) = coll
         \<and> effects (snd (snd (broadcast env packet opts (coll, a)))) = effects a"
proof -
  obtain r c b where
    p: "publish env BROADCAST (BroadcastData packet (serializeOptions opts) None) (coll, a)
          = (r, c, b)"
    by (cases "publish env BROADCAST (BroadcastData packet (serializeOptions opts) None) (coll, a)")
  with assms(2) have r: "r = Inl err" by simp
  from publish_rejected [OF assms(2)] p have "c = coll" "effects b = effects a" by simp_all
  then show ?thesis using assms(1) by (simp add: broadcast_def p r)
qed

theorem broadcast_publish_fails_witness:
  "\<not> onlyLocal optsAll
   \<and> fst (publish env0 BROADCAST (BroadcastData packet0 (serializeOptions optsAll) None)
            ([], close adapterA)) = Inl (Message ''adapter is closed'')
   \<and> fst (broadcast env0 packet0 optsAll ([], close adapterA)) = Inr ()
   \<and> fst (snd (broadcast env0 packet0 optsAll ([], close adapterA))) = []
   \<and> effects (snd (snd (broadcast env0 packet0 optsAll ([], close adapterA)))) = []"
proof -
  have h1: "\<not> onlyLocal optsAll" by (simp add: onlyLocal_def optsAll_def)
  have h2: "fst (publish env0 BROADCAST (BroadcastData packet0 (serializeOptions optsAll) None)
            ([], close adapterA)) = Inl (Message ''adapter is closed'')"
    by (simp add: publish_def close_def)
  have e: "effects (close adapterA) = []" by (simp add: close_def adapterA_def)
  from broadcast_publish_fails [OF h1 h2] h1 h2 show ?thesis by (simp add: e)
qed

section \<open>Properties of session recovery\<close>

lemma offset1_parses: "objectIdOfHex offset1 = Some 10"
  by (simp add: objectIdOfHex_def offset1_def hexDigit_def)

lemma missedQuery_missedBy: "missedQuery a off session d = missedBy a off (session_rooms session) d"
  by (cases "data_opts (event_data d)")
     (auto simp add: missedQuery_def missedBy_def size0_def op_in_def op_nin_def list_ex_iff)

lemma sessionQuery_isSessionOf: "sessionQuery pid d = isSessionOf pid d"
  by (cases "event_data d") (auto simp add: sessionQuery_def isSessionOf_def)

lemma offsetQuery_isBroadcastAt: "offsetQuery off d = isBroadcastAt off d"
  by (simp add: offsetQuery_def isBroadcastAt_def)

lemma filter_remove1_other: "\<not> P x \<Longrightarrow> filter P (remove1 x xs) = filter P xs"
  by (induction xs) auto

lemma length_filter_remove1:
  "x \<in> set xs \<Longrightarrow> P x \<Longrightarrow> length (filter P (remove1 x xs)) + 1 = length (filter P xs)"
  by (induction xs) auto

lemma find_Some_member: "List.find P xs = Some x \<Longrightarrow> x \<in> set xs \<and> P x"
  by (induction xs) (auto split: if_splits)

lemma find_None_bex: "List.find P xs = None \<longleftrightarrow> \<not> (\<exists>x\<in>set xs. P x)"
  by (induction xs) auto

text \<open>What a successful call has done.\<close>

lemma restoreSession_success:
  assumes "restoreSession objectId io pid offset (coll, a) = (Inr session, coll')"
  shows "\<exists>eventOffset d s.
           objectId offset = Some eventOffset
           \<and> \<not> findOneAndDeleteFails io \<and> \<not> findOneFails io \<and> \<not> cursorFails io
           \<and> List.find (sessionQuery pid) coll = Some d
           \<and> event_data d = SessionData s
           \<and> List.find (offsetQuery eventOffset) coll \<noteq> None
           \<and> coll' = remove1 d coll
           \<and> session = Session.extend s
                 (RestoredSession.fields
                    (collectMissedPackets (filter (missedQuery a eventOffset s) (remove1 d coll))))"
  using assms
  by (auto simp add: restoreSession_def findOneAndDelete_def scanMissedPackets_def Let_def
      split: option.splits if_splits EventData.splits)


lemma data_pid_Some: "data_pid x = Some pid \<Longrightarrow> \<exists>s. x = SessionData s \<and> session_pid s = pid"
  by (cases x) simp_all

lemma session_not_missed: "sessionQuery pid d \<Longrightarrow> \<not> missedQuery a off s d"
  by (simp add: sessionQuery_def missedQuery_def)

lemma restored_fields [simp]:
  "session_rooms (Session.extend s (RestoredSession.fields m)) = session_rooms s"
  "missedPackets (Session.extend s (RestoredSession.fields m)) = m"
  by (simp_all add: Session.defs RestoredSession.defs)

lemma set_map_filter: "set (List.map_filter f xs) = {y. \<exists>x\<in>set xs. f x = Some y}"
  by (induction xs) (auto split: option.splits)

lemma store1_restore:
  "restoreSession objectIdOfHex noFailures ''pid1'' offset1 (store1, adapterA)
     = (Inr restored1, butlast store1)"
  by (simp add: restoreSession_def offset1_parses noFailures_def store1_def findOneAndDelete_def
      sessionQuery_def offsetQuery_def broadcastDoc_def sessionDoc_def session1_def
      scanMissedPackets_def missedQuery_def size0_def op_in_def op_nin_def adapterA_def
      collectMissedPackets_def List.map_filter_simps restored1_def Let_def)

text \<open>
  C3. After a successful \<^verbatim>\<open>restoreSession(pid, offset)\<close> the missed packets of the session
  are the packet data of the documents of the collection, in the order of the collection, that
  are of type \<^verbatim>\<open>BROADCAST\<close>, of the adapter's namespace, with an \<^verbatim>\<open>_id\<close> greater than
  the offset, whose rooms are empty or contain one of the session's rooms, and whose excepted
  rooms are empty or contain none of them. So a packet data is among the missed packets if and
  only if it is that of such a document. (A document whose packet has no data is skipped by
  the guard of the loop: it has nothing to contribute.)
\<close>

theorem restoreSession_missedPackets:
  assumes "restoreSession objectId io pid offset (coll, a) = (Inr session, coll')"
  shows "\<exists>eventOffset.
           objectId offset = Some eventOffset
           \<and> missedPackets session
               = List.map_filter (\<lambda>d. data_packet_data (event_data d))
                   (filter (missedBy a eventOffset (session_rooms session)) coll)
           \<and> (\<forall>d\<in>set coll. \<forall>packetData.
                 missedBy a eventOffset (session_rooms session) d
                 \<and> data_packet_data (event_data d) = Some packetData
                 \<longrightarrow> packetData \<in> set (missedPackets session))
           \<and> (\<forall>packetData\<in>set (missedPackets session).
                 \<exists>d\<in>set coll. missedBy a eventOffset (session_rooms session) d
                   \<and> data_packet_data (event_data d) = Some packetData)"
proof -
  from restoreSession_success [OF assms]
  obtain eventOffset d s where o: "objectId offset = Some eventOffset"
    and f: "List.find (sessionQuery pid) coll = Some d"
    and r: "session = Session.extend s
              (RestoredSession.fields
                 (collectMissedPackets (filter (missedQuery a eventOffset s) (remove1 d coll))))"
    by blast
  from f have "sessionQuery pid d" by (simp add: find_Some_member)
  then have "\<not> missedQuery a eventOffset s d" by (rule session_not_missed)
  then have "filter (missedQuery a eventOffset s) (remove1 d coll)
               = filter (missedQuery a eventOffset s) coll"
    by (rule filter_remove1_other)
  moreover have "missedQuery a eventOffset s = missedBy a eventOffset (session_rooms s)"
    by (rule ext) (rule missedQuery_missedBy)
  ultimately have m: "missedPackets session
               = List.map_filter (\<lambda>d. data_packet_data (event_data d))
                   (filter (missedBy a eventOffset (session_rooms session)) coll)"
    by (simp add: r collectMissedPackets_def)
  have "set (missedPackets session)
          = {packetData. \<exists>d\<in>set coll. missedBy a eventOffset (session_rooms session) d
               \<and> data_packet_data (event_data d) = Some packetData}"
    unfolding m by (auto simp add: set_map_filter)
  with o m show ?thesis by blast
qed

theorem restoreSession_missedPackets_witness:
  "restoreSession objectIdOfHex noFailures ''pid1'' offset1 (store1, adapterA)
     = (Inr restored1, butlast store1)
   \<and> objectIdOfHex offset1 = Some 10
   \<and> missedPackets restored1
       = List.map_filter (\<lambda>d. data_packet_data (event_data d))
           (filter (missedBy adapterA 10 (session_rooms restored1)) store1)
   \<and> missedPackets restored1 = [[Str ''e1''], [Str ''e2'']]"
proof -
  from restoreSession_missedPackets [OF store1_restore] offset1_parses
  have "missedPackets restored1
       = List.map_filter (\<lambda>d. data_packet_data (event_data d))
           (filter (missedBy adapterA 10 (session_rooms restored1)) store1)"
    by auto
  moreover have "missedPackets restored1 = [[Str ''e1''], [Str ''e2'']]"
    by (simp add: restored1_def)
  ultimately show ?thesis using store1_restore offset1_parses by simp
qed

lemma restore_invalid:
  "objectId offset = None \<Longrightarrow>
     restoreSession objectId io pid offset (coll, a) = (Inl ''invalid offset'', coll)"
  by (simp add: restoreSession_def)

lemma restore_fetch_error:
  "objectId offset = Some off \<Longrightarrow> findOneAndDeleteFails io \<or> findOneFails io \<Longrightarrow>
     fst (restoreSession objectId io pid offset (coll, a)) = Inl ''error while fetching session''"
  by (auto simp add: restoreSession_def Let_def)

lemma restore_not_found:
  "objectId offset = Some off \<Longrightarrow> \<not> findOneAndDeleteFails io \<Longrightarrow> \<not> findOneFails io \<Longrightarrow>
   \<not> (\<exists>d\<in>set coll. isSessionOf pid d) \<or> \<not> (\<exists>d\<in>set coll. isBroadcastAt off d) \<Longrightarrow>
     restoreSession objectId io pid offset (coll, a)
       = (Inl ''session or offset not found'',
          snd (findOneAndDelete (sessionQuery pid) coll))"
  using find_None_bex [of "sessionQuery pid" coll] find_None_bex [of "offsetQuery off" coll]
  by (auto simp add: restoreSession_def Let_def findOneAndDelete_def sessionQuery_isSessionOf
      offsetQuery_isBroadcastAt split: option.splits)

lemma restore_found:
  assumes "objectId offset = Some off" "\<not> findOneAndDeleteFails io" "\<not> findOneFails io"
    "\<exists>d\<in>set coll. isSessionOf pid d" "\<exists>d\<in>set coll. isBroadcastAt off d"
  shows "\<exists>d s. List.find (sessionQuery pid) coll = Some d \<and> event_data d = SessionData s
           \<and> restoreSession objectId io pid offset (coll, a)
               = (scanMissedPackets io a off s (remove1 d coll), remove1 d coll)"
proof -
  from assms(4) obtain d where d: "List.find (sessionQuery pid) coll = Some d"
    using find_None_bex [of "sessionQuery pid" coll] by (auto simp add: sessionQuery_isSessionOf)
  then have "sessionQuery pid d" by (simp add: find_Some_member)
  then obtain s where s: "event_data d = SessionData s"
    using data_pid_Some [of "event_data d" pid] by (auto simp add: sessionQuery_def)
  from assms(5) have b: "List.find (offsetQuery off) coll \<noteq> None"
    using find_None_bex [of "offsetQuery off" coll] by (auto simp add: offsetQuery_isBroadcastAt)
  from assms(1-3) d s b
  have "restoreSession objectId io pid offset (coll, a)
               = (scanMissedPackets io a off s (remove1 d coll), remove1 d coll)"
    by (auto simp add: restoreSession_def Let_def findOneAndDelete_def)
  with d s show ?thesis by blast
qed

lemma restore_scan_error:
  assumes "objectId offset = Some off" "\<not> findOneAndDeleteFails io" "\<not> findOneFails io"
    "\<exists>d\<in>set coll. isSessionOf pid d" "\<exists>d\<in>set coll. isBroadcastAt off d" "cursorFails io"
  shows "fst (restoreSession objectId io pid offset (coll, a))
           = Inl ''error while fetching missed packets''"
  using restore_found [where objectId = objectId and offset = offset and a = a, OF assms(1-5)] assms(6)
  by (auto simp add: scanMissedPackets_def)

lemma restore_ok:
  assumes "objectId offset = Some off" "\<not> findOneAndDeleteFails io" "\<not> findOneFails io"
    "\<exists>d\<in>set coll. isSessionOf pid d" "\<exists>d\<in>set coll. isBroadcastAt off d" "\<not> cursorFails io"
  shows "\<exists>session. fst (restoreSession objectId io pid offset (coll, a)) = Inr session"
  using restore_found [where objectId = objectId and offset = offset and a = a, OF assms(1-5)] assms(6)
  by (auto simp add: scanMissedPackets_def Let_def)

text \<open>
  C4. \<^verbatim>\<open>restoreSession\<close> rejects with \<^verbatim>\<open>"invalid offset"\<close> exactly when the offset is
  not a valid \<^verbatim>\<open>ObjectId\<close>, and then whatever the collection holds and without changing
  it; with \<^verbatim>\<open>"session or offset not found"\<close> exactly when the offset is valid, the two
  lookups do not fail, and the session of the private id or the broadcast at the offset is
  missing; with one of its two I/O errors exactly when the offset is valid and a lookup fails,
  or both documents are found and the scan fails; and it returns a session exactly in the
  remaining case. The four strings differ.
\<close>

theorem restoreSession_errors:
  "(fst (restoreSession objectId io pid offset (coll, a)) = Inl ''invalid offset''
      \<longleftrightarrow> objectId offset = None)
   \<and> (objectId offset = None
      \<longrightarrow> restoreSession objectId io pid offset (coll, a) = (Inl ''invalid offset'', coll))
   \<and> (fst (restoreSession objectId io pid offset (coll, a)) = Inl ''session or offset not found''
      \<longleftrightarrow> (\<exists>eventOffset. objectId offset = Some eventOffset
             \<and> \<not> findOneAndDeleteFails io \<and> \<not> findOneFails io
             \<and> (\<not> (\<exists>d\<in>set coll. isSessionOf pid d)
                 \<or> \<not> (\<exists>d\<in>set coll. isBroadcastAt eventOffset d))))
   \<and> (fst (restoreSession objectId io pid offset (coll, a))
        \<in> {Inl ''error while fetching session'', Inl ''error while fetching missed packets''}
      \<longleftrightarrow> (\<exists>eventOffset. objectId offset = Some eventOffset
             \<and> (findOneAndDeleteFails io \<or> findOneFails io
                 \<or> ((\<exists>d\<in>set coll. isSessionOf pid d)
                     \<and> (\<exists>d\<in>set coll. isBroadcastAt eventOffset d) \<and> cursorFails io))))
   \<and> ((\<exists>session. fst (restoreSession objectId io pid offset (coll, a)) = Inr session)
      \<longleftrightarrow> (\<exists>eventOffset. objectId offset = Some eventOffset
             \<and> \<not> findOneAndDeleteFails io \<and> \<not> findOneFails io \<and> \<not> cursorFails io
             \<and> (\<exists>d\<in>set coll. isSessionOf pid d)
             \<and> (\<exists>d\<in>set coll. isBroadcastAt eventOffset d)))"
proof (cases "objectId offset")
  case None
  then show ?thesis by (simp add: restore_invalid)
next
  case (Some off)
  show ?thesis
  proof (cases "findOneAndDeleteFails io \<or> findOneFails io")
    case True
    with Some restore_fetch_error [where objectId = objectId and offset = offset and pid = pid
          and coll = coll and a = a, OF Some True] show ?thesis by auto
  next
    case False
    then have nf: "\<not> findOneAndDeleteFails io" "\<not> findOneFails io" by simp_all
    show ?thesis
    proof (cases "(\<exists>d\<in>set coll. isSessionOf pid d) \<and> (\<exists>d\<in>set coll. isBroadcastAt off d)")
      case False
      then have "\<not> (\<exists>d\<in>set coll. isSessionOf pid d) \<or> \<not> (\<exists>d\<in>set coll. isBroadcastAt off d)"
        by blast
      from restore_not_found [where objectId = objectId and offset = offset and a = a, OF Some nf this]
      have "fst (restoreSession objectId io pid offset (coll, a)) = Inl ''session or offset not found''"
        by simp
      with Some nf False show ?thesis by auto
    next
      case True
      then have both: "\<exists>d\<in>set coll. isSessionOf pid d" "\<exists>d\<in>set coll. isBroadcastAt off d"
        by simp_all
      show ?thesis
      proof (cases "cursorFails io")
        case True
        from restore_scan_error [where objectId = objectId and offset = offset and a = a,
            OF Some nf both True] Some nf both True
        show ?thesis by auto
      next
        case False
        from restore_ok [where objectId = objectId and offset = offset and a = a,
            OF Some nf both False] Some nf both False
        show ?thesis by auto
      qed
    qed
  qed
qed

theorem restoreSession_errors_witness:
  "objectIdOfHex ''latest'' = None
   \<and> restoreSession objectIdOfHex noFailures ''pid1'' ''latest'' (store1, adapterA)
       = (Inl ''invalid offset'', store1)
   \<and> objectIdOfHex offset1 = Some 10
   \<and> \<not> (\<exists>d\<in>set store1. isSessionOf ''pid2'' d)
   \<and> fst (restoreSession objectIdOfHex noFailures ''pid2'' offset1 (store1, adapterA))
       = Inl ''session or offset not found''
   \<and> fst (restoreSession objectIdOfHex (noFailures\<lparr>findOneFails := True\<rparr>) ''pid1'' offset1
            (store1, adapterA))
       \<in> {Inl ''error while fetching session'', Inl ''error while fetching missed packets''}
   \<and> (\<exists>session. fst (restoreSession objectIdOfHex noFailures ''pid1'' offset1 (store1, adapterA))
         = Inr session)"
proof -
  have i: "objectIdOfHex ''latest'' = None" by (simp add: objectIdOfHex_def)
  have n: "\<not> (\<exists>d\<in>set store1. isSessionOf ''pid2'' d)"
    by (simp add: store1_def isSessionOf_def broadcastDoc_def sessionDoc_def session1_def)
  have s: "\<exists>d\<in>set store1. isSessionOf ''pid1'' d"
    by (simp add: store1_def isSessionOf_def broadcastDoc_def sessionDoc_def session1_def)
  have b: "\<exists>d\<in>set store1. isBroadcastAt 10 d"
    by (simp add: store1_def isBroadcastAt_def broadcastDoc_def sessionDoc_def)
  have nf: "\<not> findOneAndDeleteFails noFailures" "\<not> findOneFails noFailures"
    "\<not> cursorFails noFailures" "findOneFails (noFailures\<lparr>findOneFails := True\<rparr>)"
    by (simp_all add: noFailures_def)
  from restoreSession_errors [of objectIdOfHex noFailures "''pid1''" "''latest''" store1 adapterA] i
  have A: "restoreSession objectIdOfHex noFailures ''pid1'' ''latest'' (store1, adapterA)
       = (Inl ''invalid offset'', store1)" by blast
  from restoreSession_errors [of objectIdOfHex noFailures "''pid2''" offset1 store1 adapterA]
    offset1_parses n nf
  have B: "fst (restoreSession objectIdOfHex noFailures ''pid2'' offset1 (store1, adapterA))
       = Inl ''session or offset not found''" by blast
  from restoreSession_errors [of objectIdOfHex "noFailures\<lparr>findOneFails := True\<rparr>" "''pid1''"
      offset1 store1 adapterA] offset1_parses nf
  have C: "fst (restoreSession objectIdOfHex (noFailures\<lparr>findOneFails := True\<rparr>) ''pid1'' offset1
            (store1, adapterA))
       \<in> {Inl ''error while fetching session'', Inl ''error while fetching missed packets''}"
    by blast
  from restoreSession_errors [of objectIdOfHex noFailures "''pid1''" offset1 store1 adapterA]
    offset1_parses s b nf
  have D: "\<exists>session. fst (restoreSession objectIdOfHex noFailures ''pid1'' offset1 (store1, adapterA))
         = Inr session" by blast
  from i n offset1_parses A B C D show ?thesis by blast
qed

lemma findOneAndDelete_none:
  "\<not> (\<exists>d\<in>set coll. isSessionOf pid d) \<Longrightarrow> findOneAndDelete (sessionQuery pid) coll = (None, coll)"
  using find_None_bex [of "sessionQuery pid" coll]
  by (simp add: findOneAndDelete_def sessionQuery_isSessionOf)

lemma truncate_extend [simp]: "Session.truncate (Session.extend s x) = s"
  by (simp add: Session.defs)

text \<open>
  C5. A successful \<^verbatim>\<open>restoreSession(pid, offset)\<close> has taken the first session document of
  the private id out of the collection, and that document held the session returned; the
  collection holds one session document of that private id less. When it was the only one and
  no session of that private id is persisted afterwards, a second call with the same
  arguments, whose lookups do not fail, rejects with \<^verbatim>\<open>"session or offset not found"\<close>.
\<close>

theorem restoreSession_consumes_session:
  assumes "restoreSession objectId io pid offset (coll, a) = (Inr session, coll')"
  shows "(\<exists>d. List.find (isSessionOf pid) coll = Some d \<and> coll' = remove1 d coll
            \<and> event_data d = SessionData (Session.truncate session))
         \<and> length (filter (isSessionOf pid) coll') + 1 = length (filter (isSessionOf pid) coll)
         \<and> (length (filter (isSessionOf pid) coll) = 1
             \<and> (\<forall>d\<in>set later. \<not> isSessionOf pid d)
             \<and> \<not> findOneAndDeleteFails io' \<and> \<not> findOneFails io'
             \<longrightarrow> restoreSession objectId io' pid offset (coll' @ later, a)
                   = (Inl ''session or offset not found'', coll' @ later))"
proof -
  have q: "sessionQuery pid = isSessionOf pid"
    by (rule ext) (rule sessionQuery_isSessionOf)
  from restoreSession_success [OF assms]
  obtain eventOffset d s where o: "objectId offset = Some eventOffset"
    and f: "List.find (isSessionOf pid) coll = Some d"
    and s: "event_data d = SessionData s"
    and c: "coll' = remove1 d coll"
    and r: "session = Session.extend s
              (RestoredSession.fields
                 (collectMissedPackets (filter (missedQuery a eventOffset s) (remove1 d coll))))"
    unfolding q by blast
  from f have d: "d \<in> set coll" "isSessionOf pid d" by (simp_all add: find_Some_member)
  have one: "length (filter (isSessionOf pid) coll') + 1 = length (filter (isSessionOf pid) coll)"
    unfolding c using d by (rule length_filter_remove1)
  have again: "restoreSession objectId io' pid offset (coll' @ later, a)
                   = (Inl ''session or offset not found'', coll' @ later)"
    if h: "length (filter (isSessionOf pid) coll) = 1" "\<forall>d\<in>set later. \<not> isSessionOf pid d"
      "\<not> findOneAndDeleteFails io'" "\<not> findOneFails io'"
  proof -
    from one h(1) have "filter (isSessionOf pid) coll' = []" by simp
    then have "\<not> (\<exists>d\<in>set coll'. isSessionOf pid d)" by (simp add: filter_empty_conv)
    with h(2) have none: "\<not> (\<exists>d\<in>set (coll' @ later). isSessionOf pid d)" by auto
    then have "\<not> (\<exists>d\<in>set (coll' @ later). isSessionOf pid d)
                 \<or> \<not> (\<exists>d\<in>set (coll' @ later). isBroadcastAt eventOffset d)" by blast
    from restore_not_found [where objectId = objectId and offset = offset and a = a,
        OF o h(3) h(4) this]
    show ?thesis by (simp add: findOneAndDelete_none [OF none])
  qed
  from f c s r one again show ?thesis by simp
qed

theorem restoreSession_consumes_session_witness:
  "restoreSession objectIdOfHex noFailures ''pid1'' offset1 (store1, adapterA)
     = (Inr restored1, butlast store1)
   \<and> length (filter (isSessionOf ''pid1'') store1) = 1
   \<and> length (filter (isSessionOf ''pid1'') (butlast store1)) = 0
   \<and> restoreSession objectIdOfHex noFailures ''pid1'' offset1 (butlast store1, adapterA)
       = (Inl ''session or offset not found'', butlast store1)"
proof -
  have one: "length (filter (isSessionOf ''pid1'') store1) = 1"
    by (simp add: store1_def isSessionOf_def broadcastDoc_def sessionDoc_def session1_def)
  have nf: "\<not> findOneAndDeleteFails noFailures" "\<not> findOneFails noFailures"
    by (simp_all add: noFailures_def)
  from restoreSession_consumes_session [OF store1_restore, where later = "[]" and io' = noFailures]
    one nf
  have "length (filter (isSessionOf ''pid1'') (butlast store1)) = 0"
    and "restoreSession objectIdOfHex noFailures ''pid1'' offset1 (butlast store1, adapterA)
       = (Inl ''session or offset not found'', butlast store1)"
    by simp_all
  with store1_restore one show ?thesis by simp
qed

section \<open>Properties of the change stream\<close>

lemma publish_uid [simp]:
  "uid (snd (snd (publish env t d s))) = uid (snd s)"
  by (cases s) (simp add: publish_def scheduleHeartbeat_def Let_def split: option.splits)

lemma settle_uid [simp]: "uid (settle requestId request args a) = uid a"
  by (simp add: settle_def emit_def)

lemma handle_uid: "uid (snd (handle env oid t d s)) = uid (snd s)"
  by (simp add: handle_def emit_def split: EventType.splits EventData.splits option.splits)

lemma onEvent_uid: "uid (snd (onEvent env document s)) = uid (snd s)"
  by (cases s) (simp add: onEvent_def Let_def handle_uid split: option.splits)

lemma list_all_update:
  "list_all P al \<Longrightarrow> P (k, v) \<Longrightarrow> list_all P (AList.update k v al)"
  by (induction al) auto

lemma list_all_delete: "list_all P al \<Longrightarrow> list_all P (AList.delete k al)"
  by (induction al) auto

lemma createAdapter_inv: "processInv (createAdapter env u rt hi ht ca)"
  by (simp add: processInv_def createAdapter_def)

lemma initChangeStream_inv: "processInv p \<Longrightarrow> processInv (initChangeStream p)"
  by (simp add: processInv_def initChangeStream_def)

lemma attach_inv: "processInv (snd s) \<Longrightarrow> processInv (snd (attach env name csr s))"
  by (auto simp add: processInv_def attach_def initChangeStream_def newMongoAdapter_def Let_def
      intro!: list_all_update split: option.splits)

lemma onChange_inv:
  assumes "processInv (snd s)"
  shows "processInv (snd (onChange env event s))"
proof -
  let ?P = "\<lambda>(name, a). uid a = opts_uid (process_opts (snd s))"
  from assms have all: "list_all ?P (adapters (snd s))" by (simp add: processInv_def)
  have upd: "list_all ?P (AList.update name (snd (onEvent env document (fst s, adapter)))
                            (adapters (snd s)))"
    if "map_of (adapters (snd s)) name = Some adapter" for name adapter document
  proof -
    from that have "(name, adapter) \<in> set (adapters (snd s))" by (rule map_of_SomeD)
    with all have "uid adapter = opts_uid (process_opts (snd s))" by (auto simp add: list_all_iff)
    then have "?P (name, snd (onEvent env document (fst s, adapter)))"
      by (simp add: onEvent_uid)
    with all show ?thesis by (rule list_all_update)
  qed
  show ?thesis using assms upd
    by (simp add: processInv_def onChange_def Let_def split: option.splits)
qed

lemma deliver_inv: "processInv (snd s) \<Longrightarrow> processInv (snd (deliver env event s))"
  by (simp add: deliver_def onChange_inv split: option.splits)

lemma onError_inv: "processInv p \<Longrightarrow> processInv (onError notResumable p)"
  by (auto simp add: processInv_def onError_def split: option.splits)

lemma onClose_inv: "processInv p \<Longrightarrow> processInv (onClose p)"
  by (auto simp add: processInv_def onClose_def initChangeStream_def split: option.splits)

lemma closeAdapter_inv: "processInv p \<Longrightarrow> processInv (fst (closeAdapter name adapter p))"
  by (auto simp add: processInv_def closeAdapter_def Let_def intro: list_all_delete
      split: option.splits)


lemma processInv_adapter:
  "processInv p \<Longrightarrow> map_of (adapters p) name = Some a \<Longrightarrow> uid a = opts_uid (process_opts p)"
  by (auto simp add: processInv_def list_all_iff dest!: map_of_SomeD)

lemma publish_document:
  "publish env t d (coll, a) = (Inr offset, coll', a') \<Longrightarrow>
     \<exists>document. coll' = coll @ [document] \<and> event_uid document = Some (uid a)
       \<and> event_nsp document = Some (nsp_name a) \<and> event_type document = t
       \<and> event_data document = d"
  by (auto simp add: publish_def Let_def split: if_splits option.splits)

lemma deliver_own:
  "processInv p \<Longrightarrow> event_uid document = Some (opts_uid (process_opts p)) \<Longrightarrow>
     deliver env (insertEvent document) (coll, p) = (coll, p)"
  by (simp add: deliver_def processInv_def pipelineMatches_def insertEvent_def
      split: option.splits)

lemma deliver_other:
  "processInv q \<Longrightarrow> event_uid document = Some u \<Longrightarrow> u \<noteq> opts_uid (process_opts q) \<Longrightarrow>
   changeStream q = Some cs \<Longrightarrow> \<not> stream_closed cs \<Longrightarrow> event_nsp document = Some name \<Longrightarrow>
   map_of (adapters q) name = Some b \<Longrightarrow>
     deliver env (insertEvent document) (coll, q)
       = (fst (onEvent env document (coll, b)),
          q\<lparr>resumeToken := Some (event_id document),
            adapters := AList.update name (snd (onEvent env document (coll, b))) (adapters q)\<rparr>)"
  by (simp add: deliver_def processInv_def pipelineMatches_def insertEvent_def onChange_def
      Let_def)

lemma procA_inv: "processInv procA"
  unfolding procA_def by (rule attach_inv) (simp add: createAdapter_inv)

lemma procB_inv: "processInv procB"
  unfolding procB_def by (rule attach_inv) (simp add: createAdapter_inv)

lemma procA_opts: "process_opts procA =
    \<lparr>opts_uid = ''a'', opts_requestsTimeout = None, opts_heartbeatInterval = None,
     opts_heartbeatTimeout = None, opts_addCreatedAtField = None\<rparr>"
  by (simp add: procA_def attach_def createAdapter_def initChangeStream_def Let_def)

lemma procB_opts: "process_opts procB =
    \<lparr>opts_uid = ''b'', opts_requestsTimeout = None, opts_heartbeatInterval = None,
     opts_heartbeatTimeout = None, opts_addCreatedAtField = None\<rparr>"
  by (simp add: procB_def attach_def createAdapter_def initChangeStream_def Let_def)

lemma procA_adapter: "map_of (adapters procA) ''/'' = Some adapterOfA"
  by (simp add: adapterOfA_def procA_opts)
     (simp add: procA_def attach_def createAdapter_def initChangeStream_def Let_def)

lemma procB_adapter: "map_of (adapters procB) ''/'' = Some adapterOfB"
  by (simp add: adapterOfB_def procB_opts)
     (simp add: procB_def attach_def createAdapter_def initChangeStream_def Let_def)

lemma procB_stream:
  "changeStream procB = Some \<lparr>match_ne_uid = ''b'', resumeAfter = None, stream_closed = False\<rparr>"
  by (simp add: procB_def attach_def createAdapter_def initChangeStream_def Let_def)

lemma adapterOfA_publish:
  "publish env0 BROADCAST (BroadcastData packet0 (serializeOptions optsAll) None) ([], adapterOfA)
     = (Inr (toHexString 7), [broadcastA], scheduleHeartbeat env0 adapterOfA)"
  by (simp add: adapterOfA_def procA_opts newMongoAdapter_def publish_def env0_def broadcastA_def
      scheduleHeartbeat_def Let_def)

text \<open>
  C9. A document published by an adapter of a process carries the uid of the process. The
  change stream of that process, now and in every later state of the process, does not emit
  its insertion: nothing is dispatched and the process is unchanged. The open change stream of
  a process with another uid that has an adapter for the namespace dispatches it to that
  adapter's \<^verbatim>\<open>onEvent\<close>.
\<close>

theorem own_documents_are_filtered:
  assumes "processInv p" and "map_of (adapters p) name = Some a"
    and "publish env t d (coll, a) = (Inr offset, coll', a')"
  shows "\<exists>document. coll' = coll @ [document]
           \<and> event_uid document = Some (opts_uid (process_opts p))
           \<and> (\<forall>env' c p'. processInv p' \<and> opts_uid (process_opts p') = opts_uid (process_opts p)
                 \<longrightarrow> deliver env' (insertEvent document) (c, p') = (c, p'))
           \<and> (\<forall>env' c q cs b.
                 processInv q \<and> opts_uid (process_opts q) \<noteq> opts_uid (process_opts p)
                 \<and> changeStream q = Some cs \<and> \<not> stream_closed cs
                 \<and> map_of (adapters q) (nsp_name a) = Some b
                 \<longrightarrow> deliver env' (insertEvent document) (c, q)
                       = (fst (onEvent env' document (c, b)),
                          q\<lparr>resumeToken := Some (event_id document),
                            adapters := AList.update (nsp_name a)
                                          (snd (onEvent env' document (c, b))) (adapters q)\<rparr>))"
proof -
  from publish_document [OF assms(3)]
  obtain document where c: "coll' = coll @ [document]"
    and u: "event_uid document = Some (uid a)"
    and n: "event_nsp document = Some (nsp_name a)" by blast
  from processInv_adapter [OF assms(1,2)] u
  have u': "event_uid document = Some (opts_uid (process_opts p))" by simp
  have own: "deliver env' (insertEvent document) (c, p') = (c, p')"
    if "processInv p'" "opts_uid (process_opts p') = opts_uid (process_opts p)" for env' c p'
    using that u' by (simp add: deliver_own)
  have other: "deliver env' (insertEvent document) (c, q)
                 = (fst (onEvent env' document (c, b)),
                    q\<lparr>resumeToken := Some (event_id document),
                      adapters := AList.update (nsp_name a)
                                    (snd (onEvent env' document (c, b))) (adapters q)\<rparr>)"
    if "processInv q" "opts_uid (process_opts q) \<noteq> opts_uid (process_opts p)"
      "changeStream q = Some cs" "\<not> stream_closed cs" "map_of (adapters q) (nsp_name a) = Some b"
    for env' c q cs b
    using deliver_other [OF that(1) u' _ that(3) that(4) n that(5)] that(2) by simp
  from c u' own other show ?thesis by blast
qed

theorem own_documents_are_filtered_witness:
  "processInv procA
   \<and> map_of (adapters procA) ''/'' = Some adapterOfA
   \<and> publish env0 BROADCAST (BroadcastData packet0 (serializeOptions optsAll) None) ([], adapterOfA)
       = (Inr (toHexString 7), [broadcastA], scheduleHeartbeat env0 adapterOfA)
   \<and> deliver env0 (insertEvent broadcastA) ([broadcastA], procA) = ([broadcastA], procA)
   \<and> processInv procB \<and> opts_uid (process_opts procB) \<noteq> opts_uid (process_opts procA)
   \<and> deliver env0 (insertEvent broadcastA) ([broadcastA], procB)
       = (fst (onEvent env0 broadcastA ([broadcastA], adapterOfB)),
          procB\<lparr>resumeToken := Some 7,
                adapters := AList.update ''/'' (snd (onEvent env0 broadcastA ([broadcastA], adapterOfB)))
                              (adapters procB)\<rparr>)"
proof -
  have ne: "opts_uid (process_opts procB) \<noteq> opts_uid (process_opts procA)"
    by (simp add: procA_opts procB_opts)
  have n: "nsp_name adapterOfA = ''/''"
    by (simp add: adapterOfA_def newMongoAdapter_def publish_def scheduleHeartbeat_def Let_def
        split: option.splits)
  have i: "event_id broadcastA = 7" by (simp add: broadcastA_def)
  have cs: "\<not> stream_closed \<lparr>match_ne_uid = ''b'', resumeAfter = None, stream_closed = False\<rparr>"
    by simp
  from own_documents_are_filtered [OF procA_inv procA_adapter adapterOfA_publish]
  obtain document where d: "[broadcastA] = [] @ [document]"
    and own: "\<forall>env' c p'. processInv p' \<and> opts_uid (process_opts p') = opts_uid (process_opts procA)
                 \<longrightarrow> deliver env' (insertEvent document) (c, p') = (c, p')"
    and other: "\<forall>env' c q cs b.
                 processInv q \<and> opts_uid (process_opts q) \<noteq> opts_uid (process_opts procA)
                 \<and> changeStream q = Some cs \<and> \<not> stream_closed cs
                 \<and> map_of (adapters q) (nsp_name adapterOfA) = Some b
                 \<longrightarrow> deliver env' (insertEvent document) (c, q)
                       = (fst (onEvent env' document (c, b)),
                          q\<lparr>resumeToken := Some (event_id document),
                            adapters := AList.update (nsp_name adapterOfA)
                                          (snd (onEvent env' document (c, b))) (adapters q)\<rparr>)"
    by blast
  from d have doc: "document = broadcastA" by simp
  from own procA_inv have A: "deliver env0 (insertEvent broadcastA) ([broadcastA], procA)
      = ([broadcastA], procA)"
    unfolding doc by blast
  from other procB_inv ne procB_stream cs procB_adapter
  have B: "deliver env0 (insertEvent broadcastA) ([broadcastA], procB)
       = (fst (onEvent env0 broadcastA ([broadcastA], adapterOfB)),
          procB\<lparr>resumeToken := Some 7,
                adapters := AList.update ''/'' (snd (onEvent env0 broadcastA ([broadcastA], adapterOfB)))
                              (adapters procB)\<rparr>)"
    unfolding doc n i by blast
  from procA_inv procA_adapter adapterOfA_publish A procB_inv ne B show ?thesis by blast
qed

end
